theory Spec2Isabelle
  imports Complex_Main "HOL-Library.Word"
begin

section \<open>JavaScript strings and JSON values\<close>

text \<open>
  A JavaScript string is a sequence of UTF-16 code units. ASCII literals of the source are
  written through \<open>ascii\<close>; literals with Chinese text are written as their code units.
\<close>

type_synonym jsstring = "16 word list"

definition ascii :: "string \<Rightarrow> jsstring" where
  "ascii s = map (\<lambda>c. of_nat (of_char c)) s"

text \<open>
  ECMAScript LineTerminator and WhiteSpace code points. \<open>String.prototype.trim\<close> strips
  both classes, and the regular-expression class \<open>\s\<close> is their union.
\<close>

definition isLineTerminator :: "16 word \<Rightarrow> bool" where
  "isLineTerminator c \<longleftrightarrow> c = 0x000A \<or> c = 0x000D \<or> c = 0x2028 \<or> c = 0x2029"

definition isWhiteSpace :: "16 word \<Rightarrow> bool" where
  "isWhiteSpace c \<longleftrightarrow>
     c = 0x0009 \<or> c = 0x000B \<or> c = 0x000C \<or> c = 0x0020 \<or> c = 0x00A0 \<or> c = 0x1680 \<or>
     (0x2000 \<le> c \<and> c \<le> 0x200A) \<or> c = 0x202F \<or> c = 0x205F \<or> c = 0x3000 \<or> c = 0xFEFF"

definition isSpace :: "16 word \<Rightarrow> bool" where
  "isSpace c \<longleftrightarrow> isWhiteSpace c \<or> isLineTerminator c"

definition trim :: "jsstring \<Rightarrow> jsstring" where
  "trim s = rev (dropWhile isSpace (rev (dropWhile isSpace s)))"

text \<open>
  The value \<open>JSON.parse\<close> returns: \<open>response.json()\<close> is typed \<open>any\<close>, and the screens
  read fields of it without validation. Object keys are kept as byte strings; every
  property name the screens read is an ASCII identifier. \<open>None\<close> of \<open>jsval\<close> is
  \<open>undefined\<close>.
\<close>

datatype json =
    JNull
  | JBool bool
  | JNum real
  | JStr jsstring
  | JArr "json list"
  | JObj "(string \<times> json) list"

type_synonym jsval = "json option"

text \<open>
  What one HTTP exchange delivers to the caller of \<open>fetch\<close>: the promise rejects, or it
  resolves with a status and a body. The body either is the JSON text of a value, which
  \<open>response.json()\<close> returns, or is some other text, on which \<open>response.json()\<close> throws.
\<close>

datatype body =
    NotJson jsstring
  | Json json

datatype fetch_result =
    Rejects
  | Responds nat body

datatype js_error =
    TypeError          \<comment> \<open>property read on null, or a call of something that is no function\<close>
  | SyntaxError        \<comment> \<open>\<open>response.json()\<close> on a body that is not JSON\<close>
  | NetworkError       \<comment> \<open>the promise of \<open>fetch\<close> rejects\<close>
  | AbortError         \<comment> \<open>\<open>fetch\<close> rejects because its signal was aborted\<close>
  | TimeoutError       \<comment> \<open>\<open>new Error\<close> with the request-timed-out text of \<open>apiRequest\<close>\<close>
  | ApiError nat body  \<comment> \<open>\<open>new Error\<close> with the status and body text of a non-2xx response\<close>
  | FileMissing        \<comment> \<open>\<open>new Error\<close> thrown by \<open>uploadVideo\<close> when the file does not exist\<close>
  | HttpError nat      \<comment> \<open>\<open>new Error\<close> with the status, thrown by \<open>fetchReports\<close> on a non-2xx response\<close>

text \<open>JavaScript truthiness of a value.\<close>

fun truthy :: "jsval \<Rightarrow> bool" where
  "truthy None = False"
| "truthy (Some JNull) = False"
| "truthy (Some (JBool b)) = b"
| "truthy (Some (JNum x)) = (x \<noteq> 0)"
| "truthy (Some (JStr s)) = (s \<noteq> [])"
| "truthy (Some (JArr _)) = True"
| "truthy (Some (JObj _)) = True"

text \<open>
  The property read \<open>v.k\<close> on a parsed value: a TypeError on \<open>null\<close>, the field of an
  object (the last one when the body repeats a key), \<open>undefined\<close> otherwise.
\<close>

fun getProp :: "json \<Rightarrow> string \<Rightarrow> js_error + jsval" where
  "getProp JNull k = Inl TypeError"
| "getProp (JObj kvs) k = Inr (map_of (rev kvs) k)"
| "getProp _ k = Inr None"

text \<open>\<open>response.ok\<close>\<close>

definition ok :: "nat \<Rightarrow> bool" where
  "ok status \<longleftrightarrow> 200 \<le> status \<and> status \<le> 299"

text \<open>
  The calls of \<open>Alert.alert\<close> that the handlers below make, one constructor per call
  in the source; the HTTP requests the screens issue.
\<close>

datatype alert =
    ServiceUnavailable        \<comment> \<open>ChatScreen, \<open>sendMessage\<close> with \<open>apiAvailable\<close> false\<close>
  | ConnectionFailed          \<comment> \<open>ChatScreen, catch block of \<open>checkApiStatus\<close>\<close>
  | ServerWarning             \<comment> \<open>WorkoutsScreen, \<open>checkServerHealth\<close>, agent not available\<close>
  | ConnectionError           \<comment> \<open>WorkoutsScreen, catch block of \<open>checkServerHealth\<close>\<close>
  | AnalysisFailed jsval      \<comment> \<open>WorkoutsScreen, \<open>uploadVideo\<close>, \<open>data.success\<close> falsy\<close>
  | UploadError js_error      \<comment> \<open>WorkoutsScreen, catch block of \<open>uploadVideo\<close>\<close>
  | TestVideoError js_error   \<comment> \<open>WorkoutsScreen, outer catch block of \<open>useTestVideo\<close>\<close>
  | CannotOpenReport          \<comment> \<open>ProfileScreen, \<open>handleReportItemPress\<close> without URL\<close>

datatype request =
    GetHealth
  | PostChat jsstring
  | PostAnalyze jsstring jsstring nat   \<comment> \<open>video URI, exercise type, timeout in ms\<close>
  | GetReport jsval
  | GetAnalysisReports

subsection \<open>Numbers\<close>

text \<open>
  A JavaScript number is an IEEE 754 double. The finite non-negative doubles are the
  values \<open>mantissa * 2 ^ exponent\<close> with a mantissa below \<open>2 ^ 53\<close>; these are the
  numbers \<open>Math.random()\<close> returns and the arithmetic of \<open>simulateAnalysisResult\<close>
  works on.
\<close>

record double =
  mantissa :: nat
  exponent :: int


definition dval :: "double \<Rightarrow> real" where
  "dval d =
     (if 0 \<le> exponent d then of_nat (mantissa d) * 2 ^ nat (exponent d)
      else of_nat (mantissa d) / 2 ^ nat (- exponent d))"

fun bitlength :: "nat \<Rightarrow> nat" where
  "bitlength n = (if n = 0 then 0 else Suc (bitlength (n div 2)))"

declare bitlength.simps [simp del]

text \<open>
  The double nearest to \<open>n * 2 ^ e\<close>: the leading 53 bits of \<open>n\<close>, rounded to nearest
  with ties to the even mantissa, as every arithmetic operation of JavaScript rounds its
  exact result.
\<close>

definition roundDouble :: "nat \<Rightarrow> int \<Rightarrow> double" where
  "roundDouble n e =
     (if n < 2 ^ 53 then \<lparr>mantissa = n, exponent = e\<rparr>
      else
        (let s = bitlength n - 53;
             q = n div 2 ^ s;
             r = n mod 2 ^ s;
             q' = (if 2 ^ s < 2 * r \<or> (2 * r = 2 ^ s \<and> odd q) then q + 1 else q)
         in if q' = 2 ^ 53 then \<lparr>mantissa = 2 ^ 52, exponent = e + int s + 1\<rparr>
            else \<lparr>mantissa = q', exponent = e + int s\<rparr>))"

text \<open>
  \<open>x * k\<close> for a double \<open>x\<close> and an integer constant \<open>k\<close> of the source (2, 5 or 10,
  themselves doubles): the exact product, rounded. \<open>Math.floor\<close> of a double is an
  integer; adding the constants 1 and 5 of the source to these small integers is exact.
\<close>

definition dtimes :: "double \<Rightarrow> nat \<Rightarrow> double" where
  "dtimes x k = roundDouble (mantissa x * k) (exponent x)"

definition dfloor :: "double \<Rightarrow> int" where
  "dfloor d =
     (if 0 \<le> exponent d then int (mantissa d * 2 ^ nat (exponent d))
      else int (mantissa d div 2 ^ nat (- exponent d)))"

subsection \<open>Promises\<close>

text \<open>
  What an async function leaves behind: the state it has reached, and the error its
  promise rejects with, if any (\<open>None\<close>: the promise fulfils). A try block that throws
  hands the error, with the state reached so far, to its catch block, which may throw in
  turn; a finally block runs in either case.
\<close>

definition tryCatch ::
  "'s \<times> js_error option \<Rightarrow> (js_error \<Rightarrow> 's \<Rightarrow> 's \<times> js_error option) \<Rightarrow> 's \<times> js_error option" where
  "tryCatch tried handler =
     (case tried of
        (s, None) \<Rightarrow> (s, None)
      | (s, Some error) \<Rightarrow> handler error s)"

definition andFinally :: "'s \<times> js_error option \<Rightarrow> ('s \<Rightarrow> 's) \<Rightarrow> 's \<times> js_error option" where
  "andFinally p final = (final (fst p), snd p)"

section \<open>ChatScreen\<close>

datatype sender = User | Bot

text \<open>
  Interface \<open>ChatMessage\<close>. The optional flags are only ever tested for truthiness, so an
  absent flag is \<open>False\<close>. \<open>m_message\<close> holds a \<open>jsval\<close>: \<open>sendMessage\<close> stores
  \<open>data.message\<close> of the response as it comes.
\<close>

record ChatMessage =
  m_id :: nat
  sender :: sender
  m_message :: jsval
  timestamp :: jsstring
  isError :: bool
  isWarning :: bool
  m_isLoading :: bool
  renderAsPlainText :: bool

text \<open>
  The state of the screen (\<open>useState\<close>), the alerts shown and requests issued so far, and
  the asynchronous calls that are suspended at an \<open>await\<close>: the calls of \<open>sendMessage\<close>
  by their \<open>tempId\<close>, and the \<open>checkApiStatus\<close> of the mount effect.
\<close>

record chat_state =
  message :: jsstring
  isLoading :: bool
  apiAvailable :: bool
  chatHistory :: "ChatMessage list"
  alerts :: "alert list"
  requests :: "request list"
  pendingChat :: "nat list"
  pendingHealth :: bool

text \<open>
  The message texts of the screen as UTF-16 code units, in the order of the source: the
  greeting of the first message, the warning that the agent is unavailable, the notice
  that the server cannot be reached, the text of the loading message, the unknown-error
  text, the prefix of an error reply (it ends with a colon and a space), and the text of
  the reply to a failed connection.
\<close>

definition greetingText :: jsstring where
  "greetingText = [0x4F60, 0x597D, 0xFF01, 0x6211, 0x662F, 0x4F60, 0x7684, 0x5065, 0x8EAB,
     0x52A9, 0x624B, 0xFF0C, 0x53EF, 0x4EE5, 0x4E3A, 0x4F60, 0x63D0, 0x4F9B, 0x5065, 0x8EAB,
     0x6307, 0x5BFC, 0x548C, 0x5EFA, 0x8BAE, 0x3002, 0x8BF7, 0x95EE, 0x4F60, 0x9700, 0x8981,
     0x4EC0, 0x4E48, 0x5E2E, 0x52A9, 0xFF1F]"

definition agentUnavailableText :: jsstring where
  "agentUnavailableText = [0x26A0, 0xFE0F, 0x0020, 0x6CE8, 0x610F, 0xFF1A, 0x0046, 0x0069,
     0x0074, 0x004D, 0x0069, 0x0072, 0x0072, 0x006F, 0x0072, 0x0020, 0x0041, 0x0067, 0x0065,
     0x006E, 0x0074, 0x5F53, 0x524D, 0x4E0D, 0x53EF, 0x7528, 0xFF0C, 0x804A, 0x5929, 0x529F,
     0x80FD, 0x53D7, 0x9650, 0x3002, 0x60A8, 0x4ECD, 0x7136, 0x53EF, 0x4EE5, 0x4F7F, 0x7528,
     0x52A8, 0x4F5C, 0x5206, 0x6790, 0x529F, 0x80FD, 0x3002]"

definition connectFailedText :: jsstring where
  "connectFailedText = [0x26A0, 0xFE0F, 0x0020, 0x65E0, 0x6CD5, 0x8FDE, 0x63A5, 0x5230,
     0x0046, 0x0069, 0x0074, 0x004D, 0x0069, 0x0072, 0x0072, 0x006F, 0x0072, 0x670D, 0x52A1,
     0x5668, 0xFF0C, 0x8BF7, 0x786E, 0x4FDD, 0x670D, 0x52A1, 0x5668, 0x5DF2, 0x542F, 0x52A8,
     0x5E76, 0x4E14, 0x7F51, 0x7EDC, 0x8FDE, 0x63A5, 0x6B63, 0x5E38, 0x3002, 0x804A, 0x5929,
     0x529F, 0x80FD, 0x6682, 0x65F6, 0x4E0D, 0x53EF, 0x7528, 0xFF0C, 0x4F46, 0x60A8, 0x53EF,
     0x4EE5, 0x5C1D, 0x8BD5, 0x4F7F, 0x7528, 0x52A8, 0x4F5C, 0x5206, 0x6790, 0x529F, 0x80FD,
     0x3002]"

definition thinkingText :: jsstring where
  "thinkingText = [0x6B63, 0x5728, 0x601D, 0x8003, 0x002E, 0x002E, 0x002E]"

definition unknownErrorText :: jsstring where
  "unknownErrorText = [0x672A, 0x77E5, 0x9519, 0x8BEF]"

definition errorPrefix :: jsstring where
  "errorPrefix = [0x62B1, 0x6B49, 0xFF0C, 0x5904, 0x7406, 0x60A8, 0x7684, 0x8BF7, 0x6C42,
     0x65F6, 0x51FA, 0x73B0, 0x95EE, 0x9898, 0x003A, 0x0020]"

definition connectionProblemText :: jsstring where
  "connectionProblemText = [0x62B1, 0x6B49, 0xFF0C, 0x8FDE, 0x63A5, 0x670D, 0x52A1, 0x5668,
     0x65F6, 0x51FA, 0x73B0, 0x95EE, 0x9898, 0xFF0C, 0x8BF7, 0x68C0, 0x67E5, 0x7F51, 0x7EDC,
     0x8FDE, 0x63A5, 0x6216, 0x7A0D, 0x540E, 0x518D, 0x8BD5, 0x3002]"

text \<open>
  The first render: the greeting with id 1 and the mount-time clock reading; the mount
  effect has issued \<open>GET /health\<close>.
\<close>

definition chat_init :: "jsstring \<Rightarrow> chat_state" where
  "chat_init now =
     \<lparr>message = [], isLoading = False, apiAvailable = True,
      chatHistory = [\<lparr>m_id = 1, sender = Bot, m_message = Some (JStr greetingText),
                      timestamp = now, isError = False, isWarning = False,
                      m_isLoading = False, renderAsPlainText = False\<rparr>],
      alerts = [], requests = [GetHealth], pendingChat = [], pendingHealth = True\<rparr>"

text \<open>
  \<open>checkApiStatus\<close>, from the point where \<open>fetch\<close> settles. \<open>rendered\<close> is the state of
  the render whose closure the function runs in: \<open>chatHistory.length\<close> is read from it,
  while \<open>setChatHistory(prev => ...)\<close> updates the current state \<open>st\<close>.
  The try block returns the state reached and the error thrown, if any.
\<close>

definition checkApiStatus_try ::
  "chat_state \<Rightarrow> fetch_result \<Rightarrow> jsstring \<Rightarrow> chat_state \<Rightarrow> chat_state \<times> js_error option" where
  "checkApiStatus_try rendered res now st =
     (case res of
        Rejects \<Rightarrow> (st, Some NetworkError)
      | Responds status (NotJson text) \<Rightarrow> (st, Some SyntaxError)
      | Responds status (Json data) \<Rightarrow>
          (case getProp data ''agent_status'' of
             Inl e \<Rightarrow> (st, Some e)
           | Inr agent_status \<Rightarrow>
               (let st1 = st\<lparr>apiAvailable := (agent_status = Some (JStr (ascii ''available'')))\<rparr>
                in if agent_status \<noteq> Some (JStr (ascii ''available''))
                   then (st1\<lparr>chatHistory := chatHistory st1 @
                           [\<lparr>m_id = length (chatHistory rendered) + 1, sender = Bot,
                             m_message = Some (JStr agentUnavailableText), timestamp = now,
                             isError = False, isWarning = True, m_isLoading = False,
                             renderAsPlainText = False\<rparr>]\<rparr>, None)
                   else (st1, None))))"

definition checkApiStatus_catch :: "chat_state \<Rightarrow> jsstring \<Rightarrow> chat_state \<Rightarrow> chat_state" where
  "checkApiStatus_catch rendered now st =
     st\<lparr>apiAvailable := False,
        chatHistory := chatHistory st @
          [\<lparr>m_id = length (chatHistory rendered) + 1, sender = Bot,
            m_message = Some (JStr connectFailedText), timestamp = now,
            isError = True, isWarning = False, m_isLoading = False,
            renderAsPlainText = False\<rparr>],
        alerts := alerts st @ [ConnectionFailed]\<rparr>"

definition checkApiStatus :: "chat_state \<Rightarrow> fetch_result \<Rightarrow> jsstring \<Rightarrow> chat_state \<Rightarrow> chat_state" where
  "checkApiStatus rendered res now st =
     (let st1 = (case checkApiStatus_try rendered res now st of
                   (st', None) \<Rightarrow> st'
                 | (st', Some e) \<Rightarrow> checkApiStatus_catch rendered now st')
      in st1\<lparr>pendingHealth := False\<rparr>)"

text \<open>
  The promise of \<open>checkApiStatus\<close>: the try block, handled by the catch block, which has
  no statement that throws.
\<close>

definition checkApiStatus_promise ::
  "chat_state \<Rightarrow> fetch_result \<Rightarrow> jsstring \<Rightarrow> chat_state \<Rightarrow> chat_state \<times> js_error option" where
  "checkApiStatus_promise rendered res now st =
     (case tryCatch (checkApiStatus_try rendered res now st)
             (\<lambda>error s. (checkApiStatus_catch rendered now s, None)) of
        (s, r) \<Rightarrow> (s\<lparr>pendingHealth := False\<rparr>, r))"

text \<open>
  \<open>sendMessage\<close> up to \<open>await fetch\<close>: the two guards, the user message, the temporary
  loading message, the request. \<open>now1\<close> and \<open>now2\<close> are the two clock readings. The
  result is the state reached, and the \<open>tempId\<close> of the call when it is suspended at
  \<open>await fetch\<close> (\<open>None\<close> when it has returned).
\<close>

definition sendMessage_start ::
  "jsstring \<Rightarrow> jsstring \<Rightarrow> chat_state \<Rightarrow> chat_state \<Rightarrow> chat_state \<times> nat option" where
  "sendMessage_start now1 now2 rendered st =
     (if trim (message rendered) = [] then (st, None)
      else if \<not> apiAvailable rendered
      then (st\<lparr>alerts := alerts st @ [ServiceUnavailable]\<rparr>, None)
      else
        (let userMessage = trim (message rendered);
             newMessage = \<lparr>m_id = length (chatHistory rendered) + 1, sender = User,
                           m_message = Some (JStr userMessage), timestamp = now1,
                           isError = False, isWarning = False, m_isLoading = False,
                           renderAsPlainText = False\<rparr>;
             tempId = length (chatHistory rendered) + 2;
             loadingMessage = \<lparr>m_id = tempId, sender = Bot,
                               m_message = Some (JStr thinkingText), timestamp = now2,
                               isError = False, isWarning = False, m_isLoading = True,
                               renderAsPlainText = False\<rparr>
         in (st\<lparr>chatHistory := (chatHistory st @ [newMessage]) @ [loadingMessage],
                message := [],
                isLoading := True,
                requests := requests st @ [PostChat userMessage],
                pendingChat := pendingChat st @ [tempId]\<rparr>,
             Some tempId)))"

text \<open>The replacement \<open>errorMessage.replace(/[*_#`]/g, '')\<close>.\<close>

definition isMarkdownMarker :: "16 word \<Rightarrow> bool" where
  "isMarkdownMarker c \<longleftrightarrow> c = 0x002A \<or> c = 0x005F \<or> c = 0x0023 \<or> c = 0x0060"

definition sanitize :: "jsstring \<Rightarrow> jsstring" where
  "sanitize s = filter (\<lambda>c. \<not> isMarkdownMarker c) s"

definition removeLoading :: "nat \<Rightarrow> chat_state \<Rightarrow> chat_state" where
  "removeLoading tempId st =
     st\<lparr>chatHistory := filter (\<lambda>msg. m_id msg \<noteq> tempId) (chatHistory st)\<rparr>"

text \<open>
  The try block of \<open>sendMessage\<close> from the point where \<open>fetch\<close> settles. The status of
  the response is not looked at. A falsy \<open>data.message\<close> is replaced by the unknown-error
  text; a truthy one that is no string has no \<open>replace\<close> method, and the call throws.
\<close>

definition sendMessage_try ::
  "nat \<Rightarrow> fetch_result \<Rightarrow> jsstring \<Rightarrow> chat_state \<Rightarrow> chat_state \<times> js_error option" where
  "sendMessage_try tempId res now st =
     (case res of
        Rejects \<Rightarrow> (st, Some NetworkError)
      | Responds status (NotJson text) \<Rightarrow> (st, Some SyntaxError)
      | Responds status (Json data) \<Rightarrow>
          (let st1 = removeLoading tempId st in
           case getProp data ''success'' of
             Inl e \<Rightarrow> (st1, Some e)
           | Inr success \<Rightarrow>
               if truthy success then
                 (case getProp data ''message'' of
                    Inl e \<Rightarrow> (st1, Some e)
                  | Inr msg \<Rightarrow>
                      (st1\<lparr>chatHistory := chatHistory st1 @
                         [\<lparr>m_id = tempId, sender = Bot, m_message = msg, timestamp = now,
                           isError = False, isWarning = False, m_isLoading = False,
                           renderAsPlainText = False\<rparr>]\<rparr>, None))
               else
                 (case getProp data ''message'' of
                    Inl e \<Rightarrow> (st1, Some e)
                  | Inr msg \<Rightarrow>
                      (case (if truthy msg then msg else Some (JStr unknownErrorText)) of
                         Some (JStr errorMessage) \<Rightarrow>
                           (st1\<lparr>chatHistory := chatHistory st1 @
                              [\<lparr>m_id = tempId, sender = Bot,
                                m_message = Some (JStr (errorPrefix @ sanitize errorMessage)),
                                timestamp = now, isError = True, isWarning = False,
                                m_isLoading = False, renderAsPlainText = True\<rparr>]\<rparr>, None)
                       | _ \<Rightarrow> (st1, Some TypeError)))))"

definition sendMessage_catch :: "nat \<Rightarrow> jsstring \<Rightarrow> chat_state \<Rightarrow> chat_state" where
  "sendMessage_catch tempId now st =
     (let st1 = removeLoading tempId st
      in st1\<lparr>chatHistory := chatHistory st1 @
           [\<lparr>m_id = tempId, sender = Bot, m_message = Some (JStr connectionProblemText),
             timestamp = now, isError = True, isWarning = False, m_isLoading = False,
             renderAsPlainText = True\<rparr>]\<rparr>)"

text \<open>The continuation of \<open>sendMessage\<close>: try, catch, finally.\<close>

definition sendMessage_resume :: "nat \<Rightarrow> fetch_result \<Rightarrow> jsstring \<Rightarrow> chat_state \<Rightarrow> chat_state" where
  "sendMessage_resume tempId res now st =
     (let st1 = (case sendMessage_try tempId res now st of
                   (st', None) \<Rightarrow> st'
                 | (st', Some e) \<Rightarrow> sendMessage_catch tempId now st')
      in st1\<lparr>isLoading := False, pendingChat := removeAll tempId (pendingChat st1)\<rparr>)"

text \<open>
  The promise of \<open>sendMessage\<close> from the point where \<open>fetch\<close> settles: try, catch,
  finally, as the source nests them.
\<close>

definition sendMessage_promise ::
  "nat \<Rightarrow> fetch_result \<Rightarrow> jsstring \<Rightarrow> chat_state \<Rightarrow> chat_state \<times> js_error option" where
  "sendMessage_promise tempId res now st =
     andFinally
       (tryCatch (sendMessage_try tempId res now st)
          (\<lambda>error s. (sendMessage_catch tempId now s, None)))
       (\<lambda>s. s\<lparr>isLoading := False, pendingChat := removeAll tempId (pendingChat s)\<rparr>)"

text \<open>
  A whole call of \<open>sendMessage\<close>, in the closure of the current state, when nothing else
  happens between the request and the settling of \<open>fetch\<close>.
\<close>

definition sendMessage ::
  "jsstring \<Rightarrow> jsstring \<Rightarrow> jsstring \<Rightarrow> fetch_result \<Rightarrow> chat_state \<Rightarrow> chat_state" where
  "sendMessage now1 now2 now3 res st =
     (case sendMessage_start now1 now2 st st of
        (st1, None) \<Rightarrow> st1
      | (st1, Some tempId) \<Rightarrow> sendMessage_resume tempId res now3 st1)"

text \<open>
  The events of the screen: the user edits the input (\<open>onChangeText\<close>), presses the send
  button (\<open>sendMessage\<close> runs in the closure of the latest render, which has seen every
  earlier state update), the \<open>fetch\<close> of a suspended \<open>sendMessage\<close> settles, the
  \<open>fetch\<close> of \<open>checkApiStatus\<close> settles. \<open>checkApiStatus\<close> is created by the mount
  effect (dependency list \<open>[]\<close>), so it runs in the closure of the first render.
\<close>

datatype chat_event =
    ChangeText jsstring
  | PressSend jsstring jsstring
  | ChatSettles nat fetch_result jsstring
  | HealthSettles fetch_result jsstring

fun chat_step :: "jsstring \<Rightarrow> chat_event \<Rightarrow> chat_state \<Rightarrow> chat_state" where
  "chat_step now0 (ChangeText s) st = st\<lparr>message := s\<rparr>"
| "chat_step now0 (PressSend now1 now2) st = fst (sendMessage_start now1 now2 st st)"
| "chat_step now0 (ChatSettles tempId res now) st =
     (if tempId \<in> set (pendingChat st) then sendMessage_resume tempId res now st else st)"
| "chat_step now0 (HealthSettles res now) st =
     (if pendingHealth st then checkApiStatus (chat_init now0) res now st else st)"

definition chat_run :: "jsstring \<Rightarrow> chat_event list \<Rightarrow> chat_state" where
  "chat_run now0 evs = foldl (\<lambda>st e. chat_step now0 e st) (chat_init now0) evs"

text \<open>\<open>fetch\<close> or \<open>response.json()\<close> throws: the network fails or the body is not JSON.\<close>

fun fetch_throws :: "fetch_result \<Rightarrow> bool" where
  "fetch_throws Rejects = True"
| "fetch_throws (Responds status (NotJson text)) = True"
| "fetch_throws (Responds status (Json data)) = False"

definition countErrors :: "ChatMessage list \<Rightarrow> nat" where
  "countErrors h = length (filter isError h)"

subsection \<open>Rendering of a message\<close>

text \<open>
  \<open>str.replace(re, replacement)\<close> with a global regular expression. The matcher \<open>m\<close>
  says whether the expression matches at the current position, given whether the
  position is the start of a line (for \<open>^\<close> under the \<open>m\<close> flag) and the rest of the
  string; it returns the number of code units matched and the expanded replacement.
  Unmatched code units are copied; after an empty match the scan advances by one.
\<close>

function replaceAll ::
  "(bool \<Rightarrow> jsstring \<Rightarrow> (nat \<times> jsstring) option) \<Rightarrow> bool \<Rightarrow> jsstring \<Rightarrow> jsstring" where
  "replaceAll m bol [] = (case m bol [] of None \<Rightarrow> [] | Some (n, r) \<Rightarrow> r)"
| "replaceAll m bol (c # cs) =
     (case m bol (c # cs) of
        None \<Rightarrow> c # replaceAll m (isLineTerminator c) cs
      | Some (n, r) \<Rightarrow>
          if n = 0 then r @ c # replaceAll m (isLineTerminator c) cs
          else r @ replaceAll m (isLineTerminator (last (take n (c # cs)))) (drop n (c # cs)))"
  by pat_completeness auto
termination
  by (relation "measure (\<lambda>(m, bol, s). length s)") auto

text \<open>
  \<open>(.*?)\1\<close> where the first group matched \<open>d\<close>: the shortest run of code units other
  than line terminators that is followed by \<open>d\<close>.
\<close>

fun lazyUntil :: "jsstring \<Rightarrow> jsstring \<Rightarrow> jsstring option" where
  "lazyUntil d [] = (if d = [] then Some [] else None)"
| "lazyUntil d (c # cs) =
     (if take (length d) (c # cs) = d then Some []
      else if isLineTerminator c then None
      else map_option ((#) c) (lazyUntil d cs))"

text \<open>\<open>/(\*\*|__)(.*?)\1/g\<close> with replacement \<open>$2\<close>\<close>

definition matchBold :: "bool \<Rightarrow> jsstring \<Rightarrow> (nat \<times> jsstring) option" where
  "matchBold bol s =
     (if take 2 s = [0x2A, 0x2A] \<or> take 2 s = [0x5F, 0x5F] then
        (case lazyUntil (take 2 s) (drop 2 s) of
           None \<Rightarrow> None
         | Some inner \<Rightarrow> Some (length inner + 4, inner))
      else None)"

text \<open>\<open>/(\*|_)(.*?)\1/g\<close> with replacement \<open>$2\<close>\<close>

definition matchItalic :: "bool \<Rightarrow> jsstring \<Rightarrow> (nat \<times> jsstring) option" where
  "matchItalic bol s =
     (case s of
        [] \<Rightarrow> None
      | c # cs \<Rightarrow>
          if c = 0x2A \<or> c = 0x5F then
            (case lazyUntil [c] cs of
               None \<Rightarrow> None
             | Some inner \<Rightarrow> Some (length inner + 2, inner))
          else None)"

text \<open>\<open>(.*)$\<close> under the \<open>m\<close> flag: everything up to the next line terminator.\<close>

definition restOfLine :: "jsstring \<Rightarrow> jsstring" where
  "restOfLine s = takeWhile (\<lambda>c. \<not> isLineTerminator c) s"

text \<open>\<open>/^(#+)\s+(.*)$/gm\<close> with replacement \<open>$2\<close>\<close>

definition matchHeading :: "bool \<Rightarrow> jsstring \<Rightarrow> (nat \<times> jsstring) option" where
  "matchHeading bol s =
     (let hashes = takeWhile (\<lambda>c. c = 0x23) s;
          s1 = dropWhile (\<lambda>c. c = 0x23) s;
          spaces = takeWhile isSpace s1;
          content = restOfLine (dropWhile isSpace s1)
      in if bol \<and> hashes \<noteq> [] \<and> spaces \<noteq> []
         then Some (length hashes + length spaces + length content, content)
         else None)"

text \<open>\<open>/^[-*+]\s+(.*)$/gm\<close> with replacement: a bullet (U+2022), a space, \<open>$1\<close>\<close>

definition matchBullet :: "bool \<Rightarrow> jsstring \<Rightarrow> (nat \<times> jsstring) option" where
  "matchBullet bol s =
     (case s of
        [] \<Rightarrow> None
      | c # s1 \<Rightarrow>
          (let spaces = takeWhile isSpace s1;
               content = restOfLine (dropWhile isSpace s1)
           in if bol \<and> (c = 0x2D \<or> c = 0x2A \<or> c = 0x2B) \<and> spaces \<noteq> []
              then Some (1 + length spaces + length content, [0x2022, 0x0020] @ content)
              else None))"

definition isDigit :: "16 word \<Rightarrow> bool" where
  "isDigit c \<longleftrightarrow> 0x30 \<le> c \<and> c \<le> 0x39"

text \<open>\<open>/^(\d+)\.\s+(.*)$/gm\<close> with replacement \<open>$1. $2\<close>\<close>

definition matchOrdered :: "bool \<Rightarrow> jsstring \<Rightarrow> (nat \<times> jsstring) option" where
  "matchOrdered bol s =
     (let digits = takeWhile isDigit s;
          s1 = dropWhile isDigit s
      in case s1 of
           [] \<Rightarrow> None
         | c # s2 \<Rightarrow>
             (let spaces = takeWhile isSpace s2;
                  content = restOfLine (dropWhile isSpace s2)
              in if bol \<and> digits \<noteq> [] \<and> c = 0x2E \<and> spaces \<noteq> []
                 then Some (length digits + 1 + length spaces + length content,
                            digits @ [0x2E, 0x0020] @ content)
                 else None))"

text \<open>The chain of five replacements in the JSX of a message that is not loading.\<close>

definition stripMarkdown :: "jsstring \<Rightarrow> jsstring" where
  "stripMarkdown s =
     replaceAll matchOrdered True
       (replaceAll matchBullet True
          (replaceAll matchHeading True
             (replaceAll matchItalic True
                (replaceAll matchBold True s))))"

text \<open>
  The text displayed for a message that is not loading: \<open>chat.message.replace(...)\<close>
  throws a TypeError when the stored message is no string.
\<close>

fun displayedText :: "jsval \<Rightarrow> js_error + jsstring" where
  "displayedText (Some (JStr s)) = Inr (stripMarkdown s)"
| "displayedText _ = Inl TypeError"

section \<open>ProfileScreen\<close>

text \<open>
  The state of the screen. \<open>reports\<close> holds the elements of the array the backend sent,
  unvalidated; \<open>None\<close> of \<open>currentReportUrl\<close> is \<open>null\<close>.
\<close>

record profile_state =
  reports :: "json list"
  loading :: bool
  isReportModalVisible :: bool
  currentReportUrl :: jsval
  isWebViewLoading :: bool
  p_alerts :: "alert list"
  p_requests :: "request list"

definition profile_init :: profile_state where
  "profile_init =
     \<lparr>reports = [], loading = True, isReportModalVisible = False, currentReportUrl = None,
      isWebViewLoading = False, p_alerts = [], p_requests = []\<rparr>"

text \<open>
  The try block of \<open>fetchReports\<close>: the value it passes to \<open>setReports\<close>, or the error
  thrown. The test is \<open>responseData && responseData.success &&
  Array.isArray(responseData.reports)\<close>; a property read on a truthy value does not throw.
\<close>

definition fetchReports_try :: "fetch_result \<Rightarrow> js_error + json list" where
  "fetchReports_try res =
     (case res of
        Rejects \<Rightarrow> Inl NetworkError
      | Responds status body \<Rightarrow>
          if \<not> ok status then Inl (HttpError status)
          else
            (case body of
               NotJson text \<Rightarrow> Inl SyntaxError
             | Json responseData \<Rightarrow>
                 if \<not> truthy (Some responseData) then Inr []
                 else
                   (case (getProp responseData ''success'', getProp responseData ''reports'') of
                      (Inr success, Inr (Some (JArr rs))) \<Rightarrow>
                        if truthy success then Inr rs else Inr []
                    | _ \<Rightarrow> Inr [])))"

text \<open>\<open>fetchReports\<close>: \<open>setLoading(true)\<close>, the request, try, catch, finally.\<close>

definition fetchReports :: "fetch_result \<Rightarrow> profile_state \<Rightarrow> profile_state" where
  "fetchReports res st =
     (let st1 = st\<lparr>loading := True, p_requests := p_requests st @ [GetAnalysisReports]\<rparr>;
          st2 = (case fetchReports_try res of
                   Inr rs \<Rightarrow> st1\<lparr>reports := rs\<rparr>
                 | Inl e \<Rightarrow> st1\<lparr>reports := []\<rparr>)
      in st2\<lparr>loading := False\<rparr>)"

text \<open>The promise of \<open>fetchReports\<close>.\<close>

definition fetchReports_promise ::
  "fetch_result \<Rightarrow> profile_state \<Rightarrow> profile_state \<times> js_error option" where
  "fetchReports_promise res st =
     (let st1 = st\<lparr>loading := True, p_requests := p_requests st @ [GetAnalysisReports]\<rparr>
      in andFinally
           (tryCatch (case fetchReports_try res of
                        Inr rs \<Rightarrow> (st1\<lparr>reports := rs\<rparr>, None)
                      | Inl error \<Rightarrow> (st1, Some error))
              (\<lambda>error s. (s\<lparr>reports := []\<rparr>, None)))
           (\<lambda>s. s\<lparr>loading := False\<rparr>))"

text \<open>
  The request succeeded in the sense of \<open>fetchReports\<close>: a 2xx response whose body is
  JSON with a truthy \<open>success\<close> and an array \<open>reports\<close>.
\<close>

fun reportsAccepted :: "fetch_result \<Rightarrow> bool" where
  "reportsAccepted Rejects = False"
| "reportsAccepted (Responds status (NotJson text)) = False"
| "reportsAccepted (Responds status (Json responseData)) =
     (ok status \<and>
      (case (getProp responseData ''success'', getProp responseData ''reports'') of
         (Inr success, Inr (Some (JArr rs))) \<Rightarrow> truthy success
       | _ \<Rightarrow> False))"

text \<open>
  \<open>handleReportItemPress\<close>. The handler first logs \<open>report.filename\<close> and
  \<open>report.report_url\<close>, which throws on a \<open>null\<close> element; nothing catches that.
\<close>

definition handleReportItemPress :: "json \<Rightarrow> profile_state \<Rightarrow> js_error + profile_state" where
  "handleReportItemPress report st =
     (case getProp report ''report_url'' of
        Inl e \<Rightarrow> Inl e
      | Inr report_url \<Rightarrow>
          if truthy report_url
          then Inr (st\<lparr>currentReportUrl := report_url, isReportModalVisible := True\<rparr>)
          else Inr (st\<lparr>p_alerts := p_alerts st @ [CannotOpenReport]\<rparr>))"

section \<open>WorkoutsScreen\<close>

text \<open>
  \<open>apiRequest\<close> races \<open>fetch\<close> against a timer that aborts it. Either the timer fires
  first, or \<open>fetch\<close> settles first and the timer is cleared.
\<close>

datatype race =
    TimerFirst
  | FetchFirst fetch_result

record api_result =
  aborted :: bool                 \<comment> \<open>\<open>controller.abort()\<close> was called\<close>
  outcome :: "js_error + json"    \<comment> \<open>the error thrown or the value returned\<close>

text \<open>
  The try block of \<open>apiRequest\<close>: after an abort, \<open>fetch\<close> rejects with an AbortError.
\<close>

definition apiRequest_try :: "race \<Rightarrow> js_error + json" where
  "apiRequest_try r =
     (case r of
        TimerFirst \<Rightarrow> Inl AbortError
      | FetchFirst Rejects \<Rightarrow> Inl NetworkError
      | FetchFirst (Responds status body) \<Rightarrow>
          if \<not> ok status then Inl (ApiError status body)
          else (case body of NotJson text \<Rightarrow> Inl SyntaxError | Json v \<Rightarrow> Inr v))"

definition apiRequest :: "race \<Rightarrow> api_result" where
  "apiRequest r =
     \<lparr>aborted = (r = TimerFirst),
      outcome = (case apiRequest_try r of
                   Inr v \<Rightarrow> Inr v
                 | Inl error \<Rightarrow> if error = AbortError then Inl TimeoutError else Inl error)\<rparr>"

text \<open>
  The documents \<open>reportHtml\<close> is set to, one constructor per place in the source: the
  body fetched from \<open>report_url\<close>, and the four pages the screen builds itself from
  non-empty templates. A JSON text is not empty.
\<close>

datatype html =
    FetchedHtml body              \<comment> \<open>\<open>await reportResponse.text()\<close>\<close>
  | LoadFailedHtml jsval nat      \<comment> \<open>report URL and status of a non-2xx response\<close>
  | LoadErrorHtml jsval js_error  \<comment> \<open>report URL and the error thrown while loading\<close>
  | LocalPathHtml jsval           \<comment> \<open>the server path \<open>report_path\<close>\<close>
  | SimulatedHtml jsstring "json list"  \<comment> \<open>exercise type and errors of a mock result\<close>

fun htmlTruthy :: "html option \<Rightarrow> bool" where
  "htmlTruthy None = False"
| "htmlTruthy (Some (FetchedHtml (NotJson s))) = (s \<noteq> [])"
| "htmlTruthy (Some _) = True"

text \<open>
  The state of the screen, the alerts and requests so far, and the mock results whose
  \<open>setTimeout\<close> callback has not run yet.
\<close>

record workouts_state =
  openWorkout :: "jsstring option"
  w_isLoading :: bool
  modalVisible :: bool
  selectedExercise :: jsstring
  analysisResult :: "json option"
  showResult :: bool
  reportHtml :: "html option"
  showReportModal :: bool
  w_alerts :: "alert list"
  w_requests :: "request list"
  pendingMock :: "json list"

definition workouts_init :: workouts_state where
  "workouts_init =
     \<lparr>openWorkout = None, w_isLoading = False, modalVisible = False,
      selectedExercise = ascii ''squat'', analysisResult = None, showResult = False,
      reportHtml = None, showReportModal = False, w_alerts = [], w_requests = [],
      pendingMock = []\<rparr>"

definition TEST_VIDEOS :: "(jsstring \<times> jsstring) list" where
  "TEST_VIDEOS =
     [(ascii ''squat'',
       ascii ''https://storage.googleapis.com/gtv-videos-bucket/sample/ForBiggerBlazes.mp4''),
      (ascii ''pushup'',
       ascii ''https://storage.googleapis.com/gtv-videos-bucket/sample/ForBiggerEscapes.mp4''),
      (ascii ''situp'',
       ascii ''https://storage.googleapis.com/gtv-videos-bucket/sample/ForBiggerFun.mp4''),
      (ascii ''jumping_jack'',
       ascii ''https://storage.googleapis.com/gtv-videos-bucket/sample/ForBiggerJoyrides.mp4''),
      (ascii ''plank'',
       ascii ''https://storage.googleapis.com/gtv-videos-bucket/sample/ForBiggerMeltdowns.mp4'')]"

text \<open>
  The table \<open>possibleErrors\<close> of \<open>simulateAnalysisResult\<close>, three error names per
  exercise type, and the \<open>message\<close> of a mock result, as UTF-16 code units.
\<close>

definition possibleErrors :: "(jsstring \<times> jsstring list) list" where
  "possibleErrors =
     [(ascii ''squat'',
       [ [0x819D, 0x76D6, 0x5185, 0x6263],
        [0x91CD, 0x5FC3, 0x8FC7, 0x4E8E, 0x9760, 0x524D],
        [0x4E0B, 0x8E72, 0x4E0D, 0x591F, 0x6DF1]]),
      (ascii ''pushup'',
       [ [0x80A9, 0x90E8, 0x4E0B, 0x6C89],
        [0x81C0, 0x90E8, 0x62AC, 0x9AD8],
        [0x624B, 0x8098, 0x89D2, 0x5EA6, 0x4E0D, 0x6B63, 0x786E]]),
      (ascii ''situp'',
       [ [0x8EAF, 0x5E72, 0x626D, 0x8F6C],
        [0x5934, 0x90E8, 0x524D, 0x5C48],
        [0x52A8, 0x4F5C, 0x4E0D, 0x5B8C, 0x6574]]),
      (ascii ''jumping_jack'',
       [ [0x52A8, 0x4F5C, 0x4E0D, 0x5BF9, 0x79F0],
        [0x819D, 0x76D6, 0x5F2F, 0x66F2],
        [0x624B, 0x81C2, 0x62AC, 0x8D77, 0x4E0D, 0x591F, 0x9AD8]]),
      (ascii ''plank'',
       [ [0x81C0, 0x90E8, 0x62AC, 0x9AD8],
        [0x80A9, 0x90E8, 0x4E0B, 0x6C89],
        [0x8EAB, 0x4F53, 0x4E0D, 0x5E73, 0x76F4]])]"

definition mockMessageText :: jsstring where
  "mockMessageText = [0x5206, 0x6790, 0x5B8C, 0x6210, 0xFF0C, 0x8FD9, 0x662F, 0x6A21, 0x62DF,
     0x6570, 0x636E, 0x3002]"

text \<open>
  \<open>checkServerHealth\<close> of the mount effect.
\<close>

definition checkServerHealth :: "race \<Rightarrow> workouts_state \<Rightarrow> workouts_state" where
  "checkServerHealth r st =
     (let st1 = st\<lparr>w_requests := w_requests st @ [GetHealth]\<rparr>
      in case outcome (apiRequest r) of
           Inl error \<Rightarrow> st1\<lparr>w_alerts := w_alerts st1 @ [ConnectionError]\<rparr>
         | Inr response \<Rightarrow>
             (case getProp response ''agent_status'' of
                Inl error \<Rightarrow> st1\<lparr>w_alerts := w_alerts st1 @ [ConnectionError]\<rparr>
              | Inr agent_status \<Rightarrow>
                  if agent_status \<noteq> Some (JStr (ascii ''available''))
                  then st1\<lparr>w_alerts := w_alerts st1 @ [ServerWarning]\<rparr>
                  else st1))"

text \<open>The promise of \<open>checkServerHealth\<close>.\<close>

definition checkServerHealth_promise ::
  "race \<Rightarrow> workouts_state \<Rightarrow> workouts_state \<times> js_error option" where
  "checkServerHealth_promise r st =
     (let st1 = st\<lparr>w_requests := w_requests st @ [GetHealth]\<rparr>
      in tryCatch
           (case outcome (apiRequest r) of
              Inl error \<Rightarrow> (st1, Some error)
            | Inr response \<Rightarrow>
                (case getProp response ''agent_status'' of
                   Inl error \<Rightarrow> (st1, Some error)
                 | Inr agent_status \<Rightarrow>
                     if agent_status \<noteq> Some (JStr (ascii ''available''))
                     then (st1\<lparr>w_alerts := w_alerts st1 @ [ServerWarning]\<rparr>, None)
                     else (st1, None)))
           (\<lambda>error s. (s\<lparr>w_alerts := w_alerts s @ [ConnectionError]\<rparr>, None)))"

text \<open>
  The part of \<open>uploadVideo\<close> that loads the report of a successful analysis. \<open>data\<close> is
  a value whose \<open>success\<close> has been read, so the two property reads do not throw.
  \<open>reportRes\<close> is what \<open>fetch(data.report_url)\<close> delivers.
\<close>

definition loadReport :: "json \<Rightarrow> fetch_result \<Rightarrow> workouts_state \<Rightarrow> workouts_state" where
  "loadReport data reportRes st =
     (case (getProp data ''report_url'', getProp data ''report_path'') of
        (Inr report_url, Inr report_path) \<Rightarrow>
          if truthy report_url then
            (let st1 = st\<lparr>w_requests := w_requests st @ [GetReport report_url]\<rparr>
             in case reportRes of
                  Rejects \<Rightarrow> st1\<lparr>reportHtml := Some (LoadErrorHtml report_url NetworkError)\<rparr>
                | Responds status htmlContent \<Rightarrow>
                    if ok status then st1\<lparr>reportHtml := Some (FetchedHtml htmlContent)\<rparr>
                    else st1\<lparr>reportHtml := Some (LoadFailedHtml report_url status)\<rparr>)
          else if truthy report_path then st\<lparr>reportHtml := Some (LocalPathHtml report_path)\<rparr>
          else st
      | _ \<Rightarrow> st)"

text \<open>
  The promise of that part: the inner try block around \<open>fetch(data.report_url)\<close> and its
  catch block.
\<close>

definition loadReport_promise ::
  "json \<Rightarrow> fetch_result \<Rightarrow> workouts_state \<Rightarrow> workouts_state \<times> js_error option" where
  "loadReport_promise data reportRes st =
     (case (getProp data ''report_url'', getProp data ''report_path'') of
        (Inr report_url, Inr report_path) \<Rightarrow>
          if truthy report_url then
            (let st1 = st\<lparr>w_requests := w_requests st @ [GetReport report_url]\<rparr>
             in tryCatch
                  (case reportRes of
                     Rejects \<Rightarrow> (st1, Some NetworkError)
                   | Responds status htmlContent \<Rightarrow>
                       if ok status
                       then (st1\<lparr>reportHtml := Some (FetchedHtml htmlContent)\<rparr>, None)
                       else (st1\<lparr>reportHtml := Some (LoadFailedHtml report_url status)\<rparr>, None))
                  (\<lambda>reportError s.
                     (s\<lparr>reportHtml := Some (LoadErrorHtml report_url reportError)\<rparr>, None)))
          else if truthy report_path
          then (st\<lparr>reportHtml := Some (LocalPathHtml report_path)\<rparr>, None)
          else (st, None)
      | _ \<Rightarrow> (st, None))"

text \<open>
  The try block of \<open>uploadVideo\<close>. \<open>fileInfo\<close> is what \<open>FileSystem.getInfoAsync\<close>
  delivers: an error, or whether the file exists.
\<close>

definition uploadVideo_try ::
  "jsstring \<Rightarrow> js_error + bool \<Rightarrow> race \<Rightarrow> fetch_result \<Rightarrow> workouts_state
     \<Rightarrow> workouts_state \<times> js_error option" where
  "uploadVideo_try videoUri fileInfo r reportRes st =
     (case fileInfo of
        Inl e \<Rightarrow> (st, Some e)
      | Inr exists \<Rightarrow>
          if \<not> exists then (st, Some FileMissing)
          else
            (let st1 = st\<lparr>w_requests := w_requests st @
                           [PostAnalyze videoUri (selectedExercise st) 120000]\<rparr>
             in case outcome (apiRequest r) of
                  Inl e \<Rightarrow> (st1, Some e)
                | Inr data \<Rightarrow>
                    (case getProp data ''success'' of
                       Inl e \<Rightarrow> (st1, Some e)
                     | Inr success \<Rightarrow>
                         if truthy success then
                           (loadReport data reportRes
                              (st1\<lparr>analysisResult := Some data, showResult := True\<rparr>), None)
                         else
                           (case getProp data ''message'' of
                              Inl e \<Rightarrow> (st1, Some e)
                            | Inr msg \<Rightarrow>
                                (st1\<lparr>w_alerts := w_alerts st1 @
                                   [AnalysisFailed (if truthy msg then msg
                                                    else Some (JStr unknownErrorText))]\<rparr>,
                                 None)))))"

definition uploadVideo ::
  "jsstring \<Rightarrow> js_error + bool \<Rightarrow> race \<Rightarrow> fetch_result \<Rightarrow> workouts_state \<Rightarrow> workouts_state" where
  "uploadVideo videoUri fileInfo r reportRes st =
     (let st0 = st\<lparr>w_isLoading := True, modalVisible := False, reportHtml := None,
                   showReportModal := False\<rparr>;
          st1 = (case uploadVideo_try videoUri fileInfo r reportRes st0 of
                   (st', None) \<Rightarrow> st'
                 | (st', Some error) \<Rightarrow> st'\<lparr>w_alerts := w_alerts st' @ [UploadError error]\<rparr>)
      in st1\<lparr>w_isLoading := False\<rparr>)"

text \<open>The promise of \<open>uploadVideo\<close>.\<close>

definition uploadVideo_promise ::
  "jsstring \<Rightarrow> js_error + bool \<Rightarrow> race \<Rightarrow> fetch_result \<Rightarrow> workouts_state
     \<Rightarrow> workouts_state \<times> js_error option" where
  "uploadVideo_promise videoUri fileInfo r reportRes st =
     (let st0 = st\<lparr>w_isLoading := True, modalVisible := False, reportHtml := None,
                   showReportModal := False\<rparr>
      in andFinally
           (tryCatch (uploadVideo_try videoUri fileInfo r reportRes st0)
              (\<lambda>error s. (s\<lparr>w_alerts := w_alerts s @ [UploadError error]\<rparr>, None)))
           (\<lambda>s. s\<lparr>w_isLoading := False\<rparr>))"

text \<open>
  \<open>simulateAnalysisResult\<close>. \<open>rnd\<close> is the sequence of doubles \<open>Math.random()\<close>
  returns, in the order of the calls: the counter, the coin for errors, the number of
  errors, then a count and a first timestamp for each error. \<open>encoded\<close> is what
  \<open>encodeURIComponent\<close> returns for the simulated HTML, which \<open>decodeURIComponent\<close> turns
  back into that HTML. The exercise type is the \<open>selectedExercise\<close> of the screen:
  \<open>squat\<close> initially, then the \<open>type\<close> of an exercise card (\<open>squat\<close>, \<open>pushup\<close>,
  \<open>situp\<close>, \<open>plank\<close>, \<open>jumping_jack\<close>); the two tables are looked up by their own keys.
\<close>

definition mockErrors :: "(nat \<Rightarrow> double) \<Rightarrow> jsstring \<Rightarrow> json list" where
  "mockErrors rnd exerciseType =
     (if dval (rnd 1) > 0.5 then
        (let errors = (case map_of possibleErrors exerciseType of
                         Some es \<Rightarrow> es
                       | None \<Rightarrow> [])
         in if length errors > 0 then
              (let numErrors = nat (dfloor (dtimes (rnd 2) 2) + 1)
               in map (\<lambda>i. JObj [(''type'', JStr (errors ! i)),
                                  (''count'', JNum (of_int (dfloor (dtimes (rnd (3 + 2 * i)) 5) + 1))),
                                  (''first_timestamp'', JNum (dval (dtimes (rnd (4 + 2 * i)) 10)))])
                    [0 ..< min numErrors (length errors)])
            else [])
      else [])"

definition mockResult :: "(nat \<Rightarrow> double) \<Rightarrow> jsstring \<Rightarrow> jsstring \<Rightarrow> json" where
  "mockResult rnd encoded exerciseType =
     JObj [(''success'', JBool True),
           (''message'', JStr mockMessageText),
           (''exercise_type'', JStr exerciseType),
           (''counter'', JNum (of_int (dfloor (dtimes (rnd 0) 10) + 5))),
           (''processed_frames'', JNum 300),
           (''errors_detected'', JArr (mockErrors rnd exerciseType)),
           (''report_url'', JStr (ascii ''data:text/html,'' @ encoded))]"

definition simulateAnalysisResult ::
  "(nat \<Rightarrow> double) \<Rightarrow> jsstring \<Rightarrow> jsstring \<Rightarrow> workouts_state \<Rightarrow> workouts_state" where
  "simulateAnalysisResult rnd encoded exerciseType st =
     st\<lparr>modalVisible := False,
        w_isLoading := True,
        reportHtml := Some (SimulatedHtml exerciseType (mockErrors rnd exerciseType)),
        showReportModal := False,
        pendingMock := pendingMock st @ [mockResult rnd encoded exerciseType]\<rparr>"


text \<open>
  \<open>useTestVideo\<close>. Nothing in its outer try block throws outside the inner try, so the
  outer catch block with its alert is never entered.
\<close>

definition useTestVideo ::
  "jsstring \<Rightarrow> race \<Rightarrow> (nat \<Rightarrow> double) \<Rightarrow> jsstring \<Rightarrow> workouts_state \<Rightarrow> workouts_state" where
  "useTestVideo exerciseType r rnd encoded st =
     (let st1 = st\<lparr>modalVisible := False, w_isLoading := True\<rparr>;
          st2 = (case map_of TEST_VIDEOS exerciseType of
                   None \<Rightarrow> simulateAnalysisResult rnd encoded exerciseType st1
                 | Some videoUrl \<Rightarrow>
                     (let st3 = st1\<lparr>w_requests := w_requests st1 @
                                     [PostAnalyze videoUrl exerciseType 60000]\<rparr>
                      in case outcome (apiRequest r) of
                           Inl error \<Rightarrow> simulateAnalysisResult rnd encoded exerciseType st3
                         | Inr data \<Rightarrow>
                             (case getProp data ''success'' of
                                Inl error \<Rightarrow> simulateAnalysisResult rnd encoded exerciseType st3
                              | Inr success \<Rightarrow>
                                  if truthy success
                                  then st3\<lparr>analysisResult := Some data, showResult := True\<rparr>
                                  else simulateAnalysisResult rnd encoded exerciseType st3)))
      in st2\<lparr>w_isLoading := False\<rparr>)"

text \<open>
  The promise of \<open>useTestVideo\<close>: the inner try block around \<open>apiRequest\<close> with its
  catch block, inside the outer try block with its catch block (an alert, then mock data)
  and the finally block.
\<close>

definition useTestVideo_promise ::
  "jsstring \<Rightarrow> race \<Rightarrow> (nat \<Rightarrow> double) \<Rightarrow> jsstring \<Rightarrow> workouts_state
     \<Rightarrow> workouts_state \<times> js_error option" where
  "useTestVideo_promise exerciseType r rnd encoded st =
     (let st1 = st\<lparr>modalVisible := False, w_isLoading := True\<rparr>
      in andFinally
           (tryCatch
              (case map_of TEST_VIDEOS exerciseType of
                 None \<Rightarrow> (simulateAnalysisResult rnd encoded exerciseType st1, None)
               | Some videoUrl \<Rightarrow>
                   (let st3 = st1\<lparr>w_requests := w_requests st1 @
                                   [PostAnalyze videoUrl exerciseType 60000]\<rparr>
                    in tryCatch
                         (case outcome (apiRequest r) of
                            Inl error \<Rightarrow> (st3, Some error)
                          | Inr data \<Rightarrow>
                              (case getProp data ''success'' of
                                 Inl error \<Rightarrow> (st3, Some error)
                               | Inr success \<Rightarrow>
                                   if truthy success
                                   then (st3\<lparr>analysisResult := Some data, showResult := True\<rparr>,
                                         None)
                                   else (simulateAnalysisResult rnd encoded exerciseType st3,
                                         None)))
                         (\<lambda>error s. (simulateAnalysisResult rnd encoded exerciseType s, None))))
              (\<lambda>error s. (simulateAnalysisResult rnd encoded exerciseType
                              (s\<lparr>w_alerts := w_alerts s @ [TestVideoError error]\<rparr>), None)))
           (\<lambda>s. s\<lparr>w_isLoading := False\<rparr>))"

text \<open>
  The backend request of \<open>useTestVideo\<close> fails: \<open>apiRequest\<close> throws, or the reading of
  \<open>data.success\<close> throws, or \<open>data.success\<close> is falsy.
\<close>

definition analysisFails :: "race \<Rightarrow> bool" where
  "analysisFails r =
     (case outcome (apiRequest r) of
        Inl error \<Rightarrow> True
      | Inr data \<Rightarrow> (case getProp data ''success'' of
                       Inl error \<Rightarrow> True
                     | Inr success \<Rightarrow> \<not> truthy success))"

text \<open>
  The condition under which the JSX renders the button that opens the report:
  \<open>showResult && analysisResult && (analysisResult.report_path ||
  analysisResult.report_url) && reportHtml\<close>.
\<close>

definition viewReportButtonRendered :: "workouts_state \<Rightarrow> bool" where
  "viewReportButtonRendered st =
     (showResult st \<and>
      (case analysisResult st of
         None \<Rightarrow> False
       | Some result \<Rightarrow>
           truthy (Some result) \<and>
           (case (getProp result ''report_path'', getProp result ''report_url'') of
              (Inr report_path, Inr report_url) \<Rightarrow>
                (truthy report_path \<or> truthy report_url) \<and> htmlTruthy (reportHtml st)
            | _ \<Rightarrow> False)))"

section \<open>Network calls in flight\<close>

text \<open>
  The calls the screens make, by screen and request. ChatScreen and ProfileScreen call
  \<open>fetch\<close> without a signal, and so does \<open>uploadVideo\<close> for the report. WorkoutsScreen
  makes its other calls through \<open>apiRequest\<close>, which creates an \<open>AbortController\<close>, arms
  a timer with its timeout (30000 ms unless given) whose callback calls
  \<open>controller.abort()\<close>, and clears the timer once \<open>fetch\<close> has settled.
\<close>

datatype screen = ChatScreen | ProfileScreen | WorkoutsScreen

fun callTimeout :: "screen \<Rightarrow> request \<Rightarrow> nat option" where
  "callTimeout WorkoutsScreen GetHealth = Some 30000"
| "callTimeout WorkoutsScreen (PostAnalyze videoUri exerciseType timeout) = Some timeout"
| "callTimeout scr req = None"

text \<open>
  A call in flight: the time left on its timer, if one is armed; whether
  \<open>controller.abort()\<close> has been called; how the awaited \<open>fetch\<close> has settled, if it has.
  An abort makes a pending \<open>fetch\<close> reject with an AbortError.
\<close>

record call_state =
  timer :: "nat option"
  signalAborted :: bool
  settled :: "race option"

definition startCall :: "screen \<Rightarrow> request \<Rightarrow> call_state" where
  "startCall scr req = \<lparr>timer = callTimeout scr req, signalAborted = False, settled = None\<rparr>"

text \<open>
  What happens to a call in flight: time passes (in ms), the network settles the
  \<open>fetch\<close>, or the screen loses focus or is unmounted. A timer whose time has passed
  runs its callback; a \<open>fetch\<close> that settles resumes \<open>apiRequest\<close>, which clears the
  timer before it reads the body. The effects of ChatScreen and WorkoutsScreen return no
  cleanup function and the one of ProfileScreen returns an empty one, so leaving a screen
  touches no call.
\<close>

datatype net_event =
    Elapse nat
  | Settle fetch_result
  | Leave

fun call_step :: "call_state \<Rightarrow> net_event \<Rightarrow> call_state" where
  "call_step c (Elapse d) =
     (case timer c of
        None \<Rightarrow> c
      | Some t \<Rightarrow>
          if d < t then c\<lparr>timer := Some (t - d)\<rparr>
          else c\<lparr>timer := None, signalAborted := True,
                 settled := (case settled c of None \<Rightarrow> Some TimerFirst | Some r \<Rightarrow> Some r)\<rparr>)"
| "call_step c (Settle res) =
     (case settled c of
        Some r \<Rightarrow> c
      | None \<Rightarrow> c\<lparr>timer := None, settled := Some (FetchFirst res)\<rparr>)"
| "call_step c Leave = c"

definition call_run :: "call_state \<Rightarrow> net_event list \<Rightarrow> call_state" where
  "call_run c evs = foldl call_step c evs"

section \<open>Auxiliary definitions\<close>

text \<open>
  The ways a call of \<open>apiRequest\<close> fails: timeout, network failure, a status outside
  2xx, a body that is not JSON.
\<close>

fun apiFails :: "race \<Rightarrow> bool" where
  "apiFails TimerFirst = True"
| "apiFails (FetchFirst Rejects) = True"
| "apiFails (FetchFirst (Responds status (NotJson text))) = True"
| "apiFails (FetchFirst (Responds status (Json v))) = (\<not> ok status)"

text \<open>
  \<open>checkServerHealth\<close> finds the server and its agent available.
\<close>

definition serverAvailable :: "race \<Rightarrow> bool" where
  "serverAvailable r =
     (case outcome (apiRequest r) of
        Inl error \<Rightarrow> False
      | Inr response \<Rightarrow>
          getProp response ''agent_status'' = Inr (Some (JStr (ascii ''available''))))"

text \<open>
  The timer of a call with timeout \<open>t\<close> runs out before the network settles the call;
  the first result the network delivers.
\<close>

fun timesOut :: "nat \<Rightarrow> net_event list \<Rightarrow> bool" where
  "timesOut t [] = False"
| "timesOut t (Elapse d # evs) = (t \<le> d \<or> timesOut (t - d) evs)"
| "timesOut t (Settle res # evs) = False"
| "timesOut t (Leave # evs) = timesOut t evs"

fun firstSettle :: "net_event list \<Rightarrow> fetch_result option" where
  "firstSettle [] = None"
| "firstSettle (Elapse d # evs) = firstSettle evs"
| "firstSettle (Settle res # evs) = Some res"
| "firstSettle (Leave # evs) = firstSettle evs"

text \<open>
  The responses the try blocks of the ChatScreen run through without throwing:
  \<open>sendMessage\<close> takes a JSON body with a truthy \<open>success\<close> for a reply, and
  \<open>checkApiStatus\<close> reads \<open>agent_status\<close> of any JSON body but \<open>null\<close>. The report of
  \<open>uploadVideo\<close> is loaded when the response has a 2xx status.
\<close>

fun chatAccepted :: "fetch_result \<Rightarrow> bool" where
  "chatAccepted Rejects = False"
| "chatAccepted (Responds status (NotJson text)) = False"
| "chatAccepted (Responds status (Json data)) =
     (case getProp data ''success'' of Inl error \<Rightarrow> False | Inr success \<Rightarrow> truthy success)"

fun healthAnswered :: "fetch_result \<Rightarrow> bool" where
  "healthAnswered Rejects = False"
| "healthAnswered (Responds status (NotJson text)) = False"
| "healthAnswered (Responds status (Json data)) =
     (case getProp data ''agent_status'' of Inl error \<Rightarrow> False | Inr agent_status \<Rightarrow> True)"

fun reportLoaded :: "fetch_result \<Rightarrow> bool" where
  "reportLoaded Rejects = False"
| "reportLoaded (Responds status htmlContent) = ok status"

text \<open>
  The double nearest to 0.6, and a sequence of draws that are all the same double.
\<close>

definition sixTenths :: double where
  "sixTenths = \<lparr>mantissa = 5404319552844595, exponent = - 53\<rparr>"

definition constantDraws :: "double \<Rightarrow> nat \<Rightarrow> double" where
  "constantDraws d i = d"

text \<open>
  The code units at which one of the five expressions of the render path can start to
  match.
\<close>

definition isMarkupStart :: "16 word \<Rightarrow> bool" where
  "isMarkupStart c \<longleftrightarrow>
     c = 0x2A \<or> c = 0x5F \<or> c = 0x23 \<or> c = 0x2D \<or> c = 0x2B \<or> isDigit c"


text \<open>
  The invariant of the reachable states that the properties of \<open>sendMessage\<close> rest on:
  no id exceeds the length of the history, and every suspended \<open>sendMessage\<close> has
  exactly one message under its \<open>tempId\<close>, which is not error-flagged.
\<close>

definition chat_inv :: "chat_state \<Rightarrow> bool" where
  "chat_inv st \<longleftrightarrow>
     chatHistory st \<noteq> [] \<and>
     (\<forall>m\<in>set (chatHistory st). m_id m \<le> length (chatHistory st)) \<and>
     distinct (pendingChat st) \<and>
     (\<forall>t\<in>set (pendingChat st).
        3 \<le> t \<and> length (filter (\<lambda>m. m_id m = t) (chatHistory st)) = 1 \<and>
        (\<forall>m\<in>set (chatHistory st). m_id m = t \<longrightarrow> \<not> isError m))"


section \<open>Properties of double arithmetic\<close>


lemma bitlength_ge: "2 ^ k \<le> n \<Longrightarrow> k < bitlength n"
proof (induction n arbitrary: k rule: bitlength.induct)
  case (1 n)
  from 1(2) have n0: "n \<noteq> 0" by (cases "n = 0") simp_all
  show ?case
  proof (cases k)
    case 0
    with n0 show ?thesis by (simp add: bitlength.simps [of n])
  next
    case (Suc j)
    with 1(2) have "2 ^ j \<le> n div 2" by simp
    with 1(1) n0 have "j < bitlength (n div 2)" by simp
    with Suc n0 show ?thesis by (simp add: bitlength.simps [of n])
  qed
qed







lemma bitlength_upper: "n < 2 ^ bitlength n"
proof (induction n rule: bitlength.induct)
  case (1 n)
  show ?case
  proof (cases "n = 0")
    case True
    then show ?thesis by simp
  next
    case False
    with 1 have "n div 2 < 2 ^ bitlength (n div 2)" by simp
    then have "n < 2 * 2 ^ bitlength (n div 2)" by arith
    with False show ?thesis by (simp add: bitlength.simps [of n])
  qed
qed

lemma roundDouble_mantissa: "mantissa (roundDouble n e) < 2 ^ 53"
proof (cases "n < 2 ^ 53")
  case True
  then show ?thesis by (simp add: roundDouble_def)
next
  case False
  define s where "s = bitlength n - 53"
  from False have "2 ^ 53 \<le> n" by simp
  then have "53 < bitlength n" by (rule bitlength_ge)
  then have bl: "bitlength n = s + 53" by (simp add: s_def)
  have "n < 2 ^ s * 2 ^ 53" using bitlength_upper [of n] by (simp add: bl power_add)
  then have "n div 2 ^ s < 2 ^ 53" by (simp add: less_mult_imp_div_less mult.commute)
  then show ?thesis
    using False unfolding roundDouble_def Let_def s_def [symmetric]
    by (auto simp: s_def [symmetric])
qed

lemma roundDouble_nearest:
  "2 * \<bar>int (mantissa (roundDouble n e) * 2 ^ nat (exponent (roundDouble n e) - e)) - int n\<bar>
     \<le> 2 ^ (bitlength n - 53) \<and>
   (n < 2 ^ 53 \<longrightarrow> roundDouble n e = \<lparr>mantissa = n, exponent = e\<rparr>)"
proof (cases "n < 2 ^ 53")
  case True
  then show ?thesis by (simp add: roundDouble_def)
next
  case False
  define s where "s = bitlength n - 53"
  define q where "q = n div 2 ^ s"
  define r where "r = n mod 2 ^ s"
  define q' where "q' = (if 2 ^ s < 2 * r \<or> (2 * r = 2 ^ s \<and> odd q) then q + 1 else q)"
  have n: "n = q * 2 ^ s + r" unfolding q_def r_def by (rule div_mult_mod_eq [symmetric])
  have r: "r < 2 ^ s" unfolding r_def by simp
  have rd: "roundDouble n e =
      (if q' = 2 ^ 53 then \<lparr>mantissa = 2 ^ 52, exponent = e + int s + 1\<rparr>
       else \<lparr>mantissa = q', exponent = e + int s\<rparr>)"
    unfolding roundDouble_def Let_def q'_def q_def r_def s_def using False by simp
  have u: "mantissa (roundDouble n e) * 2 ^ nat (exponent (roundDouble n e) - e) = q' * 2 ^ s"
    unfolding rd by (simp add: nat_add_distrib)
  have "2 * \<bar>int (q' * 2 ^ s) - int n\<bar> \<le> 2 ^ s"
  proof (cases "2 ^ s < 2 * r \<or> (2 * r = 2 ^ s \<and> odd q)")
    case True
    then have "q' = q + 1" by (simp add: q'_def)
    then have "int (q' * 2 ^ s) - int n = 2 ^ s - int r" using n by (simp add: algebra_simps)
    moreover have "2 ^ s \<le> 2 * int r"
    proof -
      from True have "2 ^ s \<le> 2 * r" by auto
      then have "int (2 ^ s) \<le> int (2 * r)" by (simp only: of_nat_le_iff)
      then show ?thesis by simp
    qed
    moreover have "int r < 2 ^ s" using r by (metis of_nat_less_iff of_nat_numeral of_nat_power)
    ultimately show ?thesis by simp
  next
    case False
    then have "q' = q" by (simp add: q'_def)
    then have "int (q' * 2 ^ s) - int n = - int r" using n by simp
    moreover have "2 * int r \<le> 2 ^ s"
    proof -
      from False have "2 * r \<le> 2 ^ s" by auto
      then have "int (2 * r) \<le> int (2 ^ s)" by (simp only: of_nat_le_iff)
      then show ?thesis by simp
    qed
    ultimately show ?thesis by simp
  qed
  with u False show ?thesis by (simp add: s_def)
qed

lemma dtimes_nearest:
  "2 * \<bar>int (mantissa (dtimes x k) * 2 ^ nat (exponent (dtimes x k) - exponent x))
          - int (mantissa x * k)\<bar> \<le> 2 ^ (bitlength (mantissa x * k) - 53) \<and>
   mantissa (dtimes x k) < 2 ^ 53"
  unfolding dtimes_def using roundDouble_nearest roundDouble_mantissa by blast

section \<open>Properties of ChatScreen\<close>

lemma dropWhile_all_Nil: "(\<forall>x\<in>set (dropWhile P xs). P x) \<longleftrightarrow> dropWhile P xs = []"
proof
  assume a: "\<forall>x\<in>set (dropWhile P xs). P x"
  show "dropWhile P xs = []"
  proof (rule ccontr)
    assume n: "dropWhile P xs \<noteq> []"
    then have "\<not> P (hd (dropWhile P xs))" by (rule hd_dropWhile)
    moreover have "hd (dropWhile P xs) \<in> set (dropWhile P xs)" using n by simp
    ultimately show False using a by blast
  qed
qed (auto dest: set_dropWhileD)

lemma trim_Nil_iff: "trim s = [] \<longleftrightarrow> list_all isSpace s"
proof -
  have "trim s = [] \<longleftrightarrow> (\<forall>x\<in>set (dropWhile isSpace s). isSpace x)"
    by (simp add: trim_def dropWhile_eq_Nil_conv)
  also have "\<dots> \<longleftrightarrow> dropWhile isSpace s = []" by (rule dropWhile_all_Nil)
  also have "\<dots> \<longleftrightarrow> list_all isSpace s" by (simp add: dropWhile_eq_Nil_conv list_all_iff)
  finally show ?thesis .
qed

text \<open>
  C9: when the input is empty or consists of white space only, \<open>sendMessage\<close> returns
  before any state update and before the request: the whole state, with the chat
  history, the loading flag and the log of requests issued, is unchanged.
\<close>

theorem sendMessage_blank_noop:
  assumes "list_all isSpace (message st)"
  shows "sendMessage_start now1 now2 st st = (st, None) \<and>
         sendMessage now1 now2 now3 res st = st \<and>
         chat_step now0 (PressSend now1 now2) st = st"
  using assms by (simp add: sendMessage_def sendMessage_start_def trim_Nil_iff)

theorem sendMessage_blank_noop_witness:
  "list_all isSpace (message ((chat_init [])\<lparr>message := [0x20, 0x0A, 0x3000]\<rparr>)) \<and>
   sendMessage [] [] [] Rejects ((chat_init [])\<lparr>message := [0x20, 0x0A, 0x3000]\<rparr>)
     = (chat_init [])\<lparr>message := [0x20, 0x0A, 0x3000]\<rparr> \<and>
   requests (sendMessage [] [] [] Rejects ((chat_init [])\<lparr>message := [0x20, 0x0A, 0x3000]\<rparr>))
     = [GetHealth]"
proof -
  have a: "list_all isSpace (message ((chat_init [])\<lparr>message := [0x20, 0x0A, 0x3000]\<rparr>))"
    by (simp add: isSpace_def isWhiteSpace_def isLineTerminator_def)
  from sendMessage_blank_noop [OF a, of "[]" "[]" "[]" Rejects "[]"] a
  show ?thesis by (simp add: chat_init_def)
qed

lemma sanitize_no_marker: "c \<in> set (sanitize s) \<Longrightarrow> \<not> isMarkdownMarker c"
  by (simp add: sanitize_def)

lemma errorPrefix_no_marker: "c \<in> set errorPrefix \<Longrightarrow> \<not> isMarkdownMarker c"
  by (auto simp: errorPrefix_def isMarkdownMarker_def)

lemma connectionProblemText_no_marker: "c \<in> set connectionProblemText \<Longrightarrow> \<not> isMarkdownMarker c"
  by (auto simp: connectionProblemText_def isMarkdownMarker_def)

lemma falsy_success_reply:
  assumes "getProp data ''success'' = Inr success" and "\<not> truthy success"
  shows "\<exists>txt. chatHistory (sendMessage_resume tempId (Responds status (Json data)) now st)
           = filter (\<lambda>m. m_id m \<noteq> tempId) (chatHistory st) @
             [\<lparr>m_id = tempId, sender = Bot, m_message = Some (JStr txt), timestamp = now,
               isError = True, isWarning = False, m_isLoading = False,
               renderAsPlainText = True\<rparr>]
         \<and> (txt = connectionProblemText \<or> (\<exists>s. txt = errorPrefix @ sanitize s))
         \<and> (\<forall>msg. getProp data ''message'' = Inr (Some (JStr msg)) \<longrightarrow>
               txt = errorPrefix @ sanitize (if msg = [] then unknownErrorText else msg))"
proof -
  obtain m where m: "getProp data ''message'' = Inr m"
    using assms(1) by (cases data) auto
  show ?thesis
  proof (cases "truthy m")
    case False
    then have "chatHistory (sendMessage_resume tempId (Responds status (Json data)) now st)
           = filter (\<lambda>m. m_id m \<noteq> tempId) (chatHistory st) @
             [\<lparr>m_id = tempId, sender = Bot,
               m_message = Some (JStr (errorPrefix @ sanitize unknownErrorText)), timestamp = now,
               isError = True, isWarning = False, m_isLoading = False,
               renderAsPlainText = True\<rparr>]"
      using assms m
      by (simp add: sendMessage_resume_def sendMessage_try_def removeLoading_def Let_def)
    moreover have "\<forall>msg. getProp data ''message'' = Inr (Some (JStr msg)) \<longrightarrow>
               errorPrefix @ sanitize unknownErrorText
                 = errorPrefix @ sanitize (if msg = [] then unknownErrorText else msg)"
      using False m by auto
    ultimately show ?thesis by blast
  next
    case True
    show ?thesis
    proof (cases "\<exists>s. m = Some (JStr s)")
      case True
      then obtain s where s: "m = Some (JStr s)" by blast
      with \<open>truthy m\<close> have ne: "s \<noteq> []" by simp
      have "chatHistory (sendMessage_resume tempId (Responds status (Json data)) now st)
           = filter (\<lambda>m. m_id m \<noteq> tempId) (chatHistory st) @
             [\<lparr>m_id = tempId, sender = Bot,
               m_message = Some (JStr (errorPrefix @ sanitize s)), timestamp = now,
               isError = True, isWarning = False, m_isLoading = False,
               renderAsPlainText = True\<rparr>]"
        using assms m s ne
        by (simp add: sendMessage_resume_def sendMessage_try_def removeLoading_def Let_def)
      moreover have "\<forall>msg. getProp data ''message'' = Inr (Some (JStr msg)) \<longrightarrow>
               errorPrefix @ sanitize s
                 = errorPrefix @ sanitize (if msg = [] then unknownErrorText else msg)"
        using m s ne by auto
      ultimately show ?thesis by blast
    next
      case False
      then have "chatHistory (sendMessage_resume tempId (Responds status (Json data)) now st)
           = filter (\<lambda>m. m_id m \<noteq> tempId) (chatHistory st) @
             [\<lparr>m_id = tempId, sender = Bot,
               m_message = Some (JStr connectionProblemText), timestamp = now,
               isError = True, isWarning = False, m_isLoading = False,
               renderAsPlainText = True\<rparr>]"
        using assms m \<open>truthy m\<close>
        by (cases m; cases "the m")
           (auto simp: sendMessage_resume_def sendMessage_try_def sendMessage_catch_def
              removeLoading_def Let_def)
      moreover have "\<forall>msg. getProp data ''message'' = Inr (Some (JStr msg)) \<longrightarrow>
               connectionProblemText
                 = errorPrefix @ sanitize (if msg = [] then unknownErrorText else msg)"
        using False m by auto
      ultimately show ?thesis by blast
    qed
  qed
qed

text \<open>
  C8: when the body of the response has a falsy \<open>success\<close>, the reply appended to the
  history is error-flagged and its text has none of the code units \<open>*\<close>, \<open>_\<close>, \<open>#\<close>
  and backquote. When the body has a string \<open>message\<close>, the text is the fixed prefix
  followed by the message (the unknown-error text when the message is empty) with these
  four code units filtered out.
\<close>

theorem error_reply_sanitized:
  assumes "getProp data ''success'' = Inr success" and "\<not> truthy success"
  shows "\<exists>txt. chatHistory (sendMessage_resume tempId (Responds status (Json data)) now st)
           = filter (\<lambda>m. m_id m \<noteq> tempId) (chatHistory st) @
             [\<lparr>m_id = tempId, sender = Bot, m_message = Some (JStr txt), timestamp = now,
               isError = True, isWarning = False, m_isLoading = False,
               renderAsPlainText = True\<rparr>]
         \<and> 0x2A \<notin> set txt \<and> 0x5F \<notin> set txt \<and> 0x23 \<notin> set txt \<and> 0x60 \<notin> set txt
         \<and> (\<forall>msg. getProp data ''message'' = Inr (Some (JStr msg)) \<longrightarrow>
               txt = errorPrefix @ sanitize (if msg = [] then unknownErrorText else msg))"
proof -
  from falsy_success_reply [OF assms] obtain txt0 where
    h: "chatHistory (sendMessage_resume tempId (Responds status (Json data)) now st)
           = filter (\<lambda>m. m_id m \<noteq> tempId) (chatHistory st) @
             [\<lparr>m_id = tempId, sender = Bot, m_message = Some (JStr txt0), timestamp = now,
               isError = True, isWarning = False, m_isLoading = False,
               renderAsPlainText = True\<rparr>]"
    and t: "txt0 = connectionProblemText \<or> (\<exists>s. txt0 = errorPrefix @ sanitize s)"
    and f: "\<forall>msg. getProp data ''message'' = Inr (Some (JStr msg)) \<longrightarrow>
               txt0 = errorPrefix @ sanitize (if msg = [] then unknownErrorText else msg)"
    by blast
  have m: "\<And>c. c \<in> set txt0 \<Longrightarrow> \<not> isMarkdownMarker c"
    using t sanitize_no_marker errorPrefix_no_marker connectionProblemText_no_marker by auto
  have "0x2A \<notin> set txt0" "0x5F \<notin> set txt0" "0x23 \<notin> set txt0" "0x60 \<notin> set txt0"
    using m [of "0x2A"] m [of "0x5F"] m [of "0x23"] m [of "0x60"]
    by (auto simp: isMarkdownMarker_def)
  with h f show ?thesis by blast
qed

theorem error_reply_sanitized_witness:
  "getProp (JObj [(''success'', JBool False), (''message'', JStr (ascii ''*bad_ #1`''))])
     ''success'' = Inr (Some (JBool False)) \<and>
   \<not> truthy (Some (JBool False)) \<and>
   getProp (JObj [(''success'', JBool False), (''message'', JStr (ascii ''*bad_ #1`''))])
     ''message'' = Inr (Some (JStr (ascii ''*bad_ #1`''))) \<and>
   m_message (last (chatHistory (sendMessage_resume 3
      (Responds 500
         (Json (JObj [(''success'', JBool False), (''message'', JStr (ascii ''*bad_ #1`''))])))
      [] (chat_init []))))
     = Some (JStr (errorPrefix @ ascii ''bad 1''))"
proof -
  let ?d = "JObj [(''success'', JBool False), (''message'', JStr (ascii ''*bad_ #1`''))]"
  have a: "getProp ?d ''success'' = Inr (Some (JBool False))" by simp
  have b: "\<not> truthy (Some (JBool False))" by simp
  have c: "getProp ?d ''message'' = Inr (Some (JStr (ascii ''*bad_ #1`'')))" by simp
  have s: "sanitize (if ascii ''*bad_ #1`'' = [] then unknownErrorText else ascii ''*bad_ #1`'')
             = ascii ''bad 1''"
    by (simp add: sanitize_def ascii_def isMarkdownMarker_def)
  from error_reply_sanitized [OF a b, of 3 500 "[]" "chat_init []"] c
  have "m_message (last (chatHistory (sendMessage_resume 3 (Responds 500 (Json ?d)) []
          (chat_init [])))) = Some (JStr (errorPrefix @ ascii ''bad 1''))"
    unfolding s [symmetric] by auto
  with a b c show ?thesis by blast
qed

lemma resume_history:
  "\<exists>r. chatHistory (sendMessage_resume t res now st)
         = filter (\<lambda>m. m_id m \<noteq> t) (chatHistory st) @ [r] \<and> m_id r = t"
  by (cases res)
     (auto simp: sendMessage_resume_def sendMessage_try_def sendMessage_catch_def
        removeLoading_def Let_def split: option.splits sum.splits json.splits body.splits)

lemma resume_pending:
  "pendingChat (sendMessage_resume t res now st) = removeAll t (pendingChat st)"
  by (cases res)
     (auto simp: sendMessage_resume_def sendMessage_try_def sendMessage_catch_def
        removeLoading_def Let_def split: option.splits sum.splits json.splits body.splits)

lemma resume_throws_history:
  "fetch_throws res \<Longrightarrow>
   chatHistory (sendMessage_resume t res now st)
     = filter (\<lambda>m. m_id m \<noteq> t) (chatHistory st) @
       [\<lparr>m_id = t, sender = Bot, m_message = Some (JStr connectionProblemText),
         timestamp = now, isError = True, isWarning = False, m_isLoading = False,
         renderAsPlainText = True\<rparr>]"
  by (cases res rule: fetch_throws.cases)
     (auto simp: sendMessage_resume_def sendMessage_try_def sendMessage_catch_def
        removeLoading_def Let_def)

lemma chat_inv_init: "chat_inv (chat_init now)"
  by (simp add: chat_inv_def chat_init_def)

lemma pending_le:
  assumes "chat_inv st" "t \<in> set (pendingChat st)"
  shows "t \<le> length (chatHistory st)"
proof -
  from assms have "length (filter (\<lambda>m. m_id m = t) (chatHistory st)) = 1"
    by (simp add: chat_inv_def)
  then have "filter (\<lambda>m. m_id m = t) (chatHistory st) \<noteq> []" by auto
  then obtain m where "m \<in> set (chatHistory st)" "m_id m = t"
    by (auto simp: filter_empty_conv)
  with assms(1) show ?thesis by (auto simp: chat_inv_def)
qed

lemma filter_fresh:
  "\<forall>m\<in>set h. m_id m \<le> length h \<Longrightarrow> length h < t \<Longrightarrow> filter (\<lambda>m. m_id m = t) h = []"
  by (auto simp: filter_empty_conv)

lemma chat_inv_start:
  assumes "chat_inv st"
  shows "chat_inv (fst (sendMessage_start now1 now2 st st))"
proof (cases "trim (message st) = [] \<or> \<not> apiAvailable st")
  case True
  with assms show ?thesis by (auto simp: sendMessage_start_def chat_inv_def)
next
  case False
  let ?n = "length (chatHistory st)"
  have le: "\<And>t. t \<in> set (pendingChat st) \<Longrightarrow> t \<le> ?n" using assms pending_le by blast
  have n1: "1 \<le> ?n" using assms by (cases "chatHistory st") (auto simp: chat_inv_def)
  have fresh: "filter (\<lambda>m. m_id m = ?n + 2) (chatHistory st) = []"
    using assms by (intro filter_fresh) (auto simp: chat_inv_def)
  have "?n + 2 \<notin> set (pendingChat st)" "?n + 1 \<notin> set (pendingChat st)"
    using le by fastforce+
  with False assms le n1 fresh show ?thesis
    by (auto simp: sendMessage_start_def chat_inv_def Let_def)
qed


lemma length_filter_split:
  "length (filter (\<lambda>m. m_id m \<noteq> t) h) + length (filter (\<lambda>m. m_id m = t) h) = length h"
  by (induction h) auto

lemma chat_inv_resume:
  assumes inv: "chat_inv st" and t: "t \<in> set (pendingChat st)"
  shows "chat_inv (sendMessage_resume t res now st)"
proof -
  let ?h = "chatHistory st"
  obtain r where h': "chatHistory (sendMessage_resume t res now st)
      = filter (\<lambda>m. m_id m \<noteq> t) ?h @ [r]" and r: "m_id r = t"
    using resume_history by blast
  have p': "pendingChat (sendMessage_resume t res now st) = removeAll t (pendingChat st)"
    by (rule resume_pending)
  have one: "length (filter (\<lambda>m. m_id m = t) ?h) = 1" using inv t by (simp add: chat_inv_def)
  have len: "length (chatHistory (sendMessage_resume t res now st)) = length ?h"
    using length_filter_split [of t ?h] one by (simp add: h')
  have tle: "t \<le> length ?h" using inv t by (rule pending_le)
  have a: "\<forall>m\<in>set (chatHistory (sendMessage_resume t res now st)).
             m_id m \<le> length (chatHistory (sendMessage_resume t res now st))"
    unfolding len using inv tle r by (auto simp: h' chat_inv_def)
  have b: "\<forall>u\<in>set (removeAll t (pendingChat st)).
        3 \<le> u \<and> length (filter (\<lambda>m. m_id m = u) (filter (\<lambda>m. m_id m \<noteq> t) ?h @ [r])) = 1 \<and>
        (\<forall>m\<in>set (filter (\<lambda>m. m_id m \<noteq> t) ?h @ [r]). m_id m = u \<longrightarrow> \<not> isError m)"
  proof
    fix u assume "u \<in> set (removeAll t (pendingChat st))"
    then have u: "u \<in> set (pendingChat st)" "u \<noteq> t" by auto
    have eq: "filter (\<lambda>m. m_id m = u) (filter (\<lambda>m. m_id m \<noteq> t) ?h @ [r]) = filter (\<lambda>m. m_id m = u) ?h"
      using u(2) r by (auto intro: filter_cong)
    have "3 \<le> u" "length (filter (\<lambda>m. m_id m = u) ?h) = 1"
         "\<forall>m\<in>set ?h. m_id m = u \<longrightarrow> \<not> isError m"
      using inv u(1) by (simp_all add: chat_inv_def)
    moreover have "\<forall>m\<in>set (filter (\<lambda>m. m_id m \<noteq> t) ?h @ [r]). m_id m = u \<longrightarrow> m \<in> set ?h"
      using u(2) r by auto
    ultimately show "3 \<le> u \<and> length (filter (\<lambda>m. m_id m = u) (filter (\<lambda>m. m_id m \<noteq> t) ?h @ [r])) = 1 \<and>
        (\<forall>m\<in>set (filter (\<lambda>m. m_id m \<noteq> t) ?h @ [r]). m_id m = u \<longrightarrow> \<not> isError m)"
      unfolding eq by blast
  qed
  have d: "distinct (removeAll t (pendingChat st))"
    using inv by (simp add: chat_inv_def distinct_removeAll)
  have ne: "chatHistory (sendMessage_resume t res now st) \<noteq> []" by (simp add: h')
  show ?thesis
    unfolding chat_inv_def p' using a b [folded h'] d ne by blast
qed

lemma health_history:
  "chatHistory (checkApiStatus (chat_init now0) res now st) = chatHistory st \<or>
   (\<exists>r. chatHistory (checkApiStatus (chat_init now0) res now st) = chatHistory st @ [r] \<and> m_id r = 2)"
  by (cases res)
     (auto simp: checkApiStatus_def checkApiStatus_try_def checkApiStatus_catch_def chat_init_def
        Let_def split: option.splits sum.splits body.splits)

lemma health_pending:
  "pendingChat (checkApiStatus rendered res now st) = pendingChat st"
  by (cases res)
     (auto simp: checkApiStatus_def checkApiStatus_try_def checkApiStatus_catch_def
        Let_def split: option.splits sum.splits body.splits)

lemma chat_inv_health:
  assumes inv: "chat_inv st"
  shows "chat_inv (checkApiStatus (chat_init now0) res now st)"
proof -
  have n1: "1 \<le> length (chatHistory st)"
    using inv by (cases "chatHistory st") (auto simp: chat_inv_def)
  from health_history [of now0 res now st] show ?thesis
  proof
    assume "chatHistory (checkApiStatus (chat_init now0) res now st) = chatHistory st"
    with inv show ?thesis by (simp add: chat_inv_def health_pending)
  next
    assume "\<exists>r. chatHistory (checkApiStatus (chat_init now0) res now st) = chatHistory st @ [r] \<and> m_id r = 2"
    then obtain r where h: "chatHistory (checkApiStatus (chat_init now0) res now st) = chatHistory st @ [r]"
      and r: "m_id r = 2" by blast
    show ?thesis
      unfolding chat_inv_def health_pending h using inv n1 r
      by (auto simp: chat_inv_def)
  qed
qed

lemma chat_inv_step: "chat_inv st \<Longrightarrow> chat_inv (chat_step now0 e st)"
proof (cases e)
  case (ChangeText s)
  assume "chat_inv st"
  then show ?thesis by (simp add: ChangeText chat_inv_def)
qed (simp_all add: chat_inv_start chat_inv_resume chat_inv_health)

lemma chat_inv_run: "chat_inv (chat_run now0 evs)"
  unfolding chat_run_def
  by (induction evs rule: rev_induct) (simp_all add: chat_inv_init chat_inv_step)


lemma filter_id_keeps: "\<forall>m\<in>set h. m_id m \<noteq> t \<Longrightarrow> filter (\<lambda>m. m_id m \<noteq> t) h = h"
  by (induction h) auto

lemma countErrors_split:
  "countErrors h = countErrors (filter (\<lambda>m. m_id m \<noteq> t) h) + countErrors (filter (\<lambda>m. m_id m = t) h)"
  unfolding countErrors_def by (induction h) auto

lemma countErrors_none: "\<forall>m\<in>set h. \<not> isError m \<Longrightarrow> countErrors h = 0"
  unfolding countErrors_def by (induction h) auto

lemma pending_filter_errors:
  assumes "chat_inv st" and "t \<in> set (pendingChat st)"
  shows "countErrors (filter (\<lambda>m. m_id m \<noteq> t) (chatHistory st)) = countErrors (chatHistory st)"
proof -
  have "\<forall>m\<in>set (filter (\<lambda>m. m_id m = t) (chatHistory st)). \<not> isError m"
    using assms by (auto simp: chat_inv_def)
  then have "countErrors (filter (\<lambda>m. m_id m = t) (chatHistory st)) = 0"
    by (rule countErrors_none)
  with countErrors_split [of "chatHistory st" t] show ?thesis by simp
qed

text \<open>
  C2: let \<open>fetch\<close> or \<open>response.json()\<close> throw, in a state reachable from the first
  render. A call of \<open>sendMessage\<close> that issues its request and settles at once leaves the
  history as it was before the call, followed by the user message and by one
  error-flagged reply: the temporary loading message is gone, and the history holds
  exactly one more error-flagged message than before the call. When other events come
  between the call and the settling of its \<open>fetch\<close>, the continuation still removes the
  loading message of the call only and appends one error-flagged reply: the length of the
  history is unchanged and the number of error-flagged messages grows by one.
\<close>

theorem sendMessage_fetch_throws:
  assumes reach: "st = chat_run now0 evs" and thr: "fetch_throws res"
  shows
    "(trim (message st) \<noteq> [] \<and> apiAvailable st \<longrightarrow>
        chatHistory (sendMessage now1 now2 now3 res st)
          = chatHistory st @
            [\<lparr>m_id = length (chatHistory st) + 1, sender = User,
              m_message = Some (JStr (trim (message st))), timestamp = now1,
              isError = False, isWarning = False, m_isLoading = False,
              renderAsPlainText = False\<rparr>,
             \<lparr>m_id = length (chatHistory st) + 2, sender = Bot,
              m_message = Some (JStr connectionProblemText), timestamp = now3,
              isError = True, isWarning = False, m_isLoading = False,
              renderAsPlainText = True\<rparr>] \<and>
        countErrors (chatHistory (sendMessage now1 now2 now3 res st))
          = countErrors (chatHistory st) + 1) \<and>
     (tempId \<in> set (pendingChat st) \<longrightarrow>
        chatHistory (sendMessage_resume tempId res now3 st)
          = filter (\<lambda>m. m_id m \<noteq> tempId) (chatHistory st) @
            [\<lparr>m_id = tempId, sender = Bot,
              m_message = Some (JStr connectionProblemText), timestamp = now3,
              isError = True, isWarning = False, m_isLoading = False,
              renderAsPlainText = True\<rparr>] \<and>
        length (chatHistory (sendMessage_resume tempId res now3 st)) = length (chatHistory st) \<and>
        countErrors (chatHistory (sendMessage_resume tempId res now3 st))
          = countErrors (chatHistory st) + 1)"
proof (intro conjI impI)
  have inv: "chat_inv st" unfolding reach by (rule chat_inv_run)
  {
    assume g: "trim (message st) \<noteq> [] \<and> apiAvailable st"
    have ids: "\<forall>m\<in>set (chatHistory st). m_id m \<noteq> length (chatHistory st) + 2"
      using inv by (fastforce simp: chat_inv_def)
    have t: "snd (sendMessage_start now1 now2 st st) = Some (length (chatHistory st) + 2)"
      using g by (simp add: sendMessage_start_def Let_def)
    have start: "chatHistory (fst (sendMessage_start now1 now2 st st))
        = chatHistory st @
             [\<lparr>m_id = length (chatHistory st) + 1, sender = User,
               m_message = Some (JStr (trim (message st))), timestamp = now1,
               isError = False, isWarning = False, m_isLoading = False,
               renderAsPlainText = False\<rparr>,
              \<lparr>m_id = length (chatHistory st) + 2, sender = Bot,
               m_message = Some (JStr thinkingText), timestamp = now2,
               isError = False, isWarning = False, m_isLoading = True,
               renderAsPlainText = False\<rparr>]"
      using g by (simp add: sendMessage_start_def Let_def)
    have sm: "sendMessage now1 now2 now3 res st
        = sendMessage_resume (length (chatHistory st) + 2) res now3
            (fst (sendMessage_start now1 now2 st st))"
      using t by (cases "sendMessage_start now1 now2 st st") (simp add: sendMessage_def)
    show h: "chatHistory (sendMessage now1 now2 now3 res st)
           = chatHistory st @
             [\<lparr>m_id = length (chatHistory st) + 1, sender = User,
               m_message = Some (JStr (trim (message st))), timestamp = now1,
               isError = False, isWarning = False, m_isLoading = False,
               renderAsPlainText = False\<rparr>,
              \<lparr>m_id = length (chatHistory st) + 2, sender = Bot,
               m_message = Some (JStr connectionProblemText), timestamp = now3,
               isError = True, isWarning = False, m_isLoading = False,
               renderAsPlainText = True\<rparr>]"
      unfolding sm using filter_id_keeps [OF ids]
      by (simp add: resume_throws_history [OF thr] start)
    show "countErrors (chatHistory (sendMessage now1 now2 now3 res st))
            = countErrors (chatHistory st) + 1"
      unfolding h by (simp add: countErrors_def)
  }
  {
    assume t: "tempId \<in> set (pendingChat st)"
    show h: "chatHistory (sendMessage_resume tempId res now3 st)
          = filter (\<lambda>m. m_id m \<noteq> tempId) (chatHistory st) @
            [\<lparr>m_id = tempId, sender = Bot,
              m_message = Some (JStr connectionProblemText), timestamp = now3,
              isError = True, isWarning = False, m_isLoading = False,
              renderAsPlainText = True\<rparr>]"
      by (rule resume_throws_history [OF thr])
    have one: "length (filter (\<lambda>m. m_id m = tempId) (chatHistory st)) = 1"
      using inv t by (simp add: chat_inv_def)
    show "length (chatHistory (sendMessage_resume tempId res now3 st)) = length (chatHistory st)"
      unfolding h using length_filter_split [of tempId "chatHistory st"] one by simp
    have "countErrors (filter (\<lambda>m. m_id m \<noteq> tempId) (chatHistory st) @
            [\<lparr>m_id = tempId, sender = Bot,
              m_message = Some (JStr connectionProblemText), timestamp = now3,
              isError = True, isWarning = False, m_isLoading = False,
              renderAsPlainText = True\<rparr>])
          = countErrors (filter (\<lambda>m. m_id m \<noteq> tempId) (chatHistory st)) + 1"
      by (simp add: countErrors_def)
    then show "countErrors (chatHistory (sendMessage_resume tempId res now3 st))
          = countErrors (chatHistory st) + 1"
      unfolding h using pending_filter_errors [OF inv t] by simp
  }
qed

theorem sendMessage_fetch_throws_witness:
  "fetch_throws Rejects \<and>
   trim (message (chat_run [] [ChangeText (ascii ''hi'')])) \<noteq> [] \<and>
   apiAvailable (chat_run [] [ChangeText (ascii ''hi'')]) \<and>
   countErrors (chatHistory (chat_run [] [ChangeText (ascii ''hi'')])) = 0 \<and>
   countErrors (chatHistory (sendMessage [] [] [] Rejects
      (chat_run [] [ChangeText (ascii ''hi'')]))) = 1 \<and>
   3 \<in> set (pendingChat (chat_run [] [ChangeText (ascii ''hi''), PressSend [] []])) \<and>
   countErrors (chatHistory (chat_run [] [ChangeText (ascii ''hi''), PressSend [] []])) = 0 \<and>
   countErrors (chatHistory (sendMessage_resume 3 Rejects []
      (chat_run [] [ChangeText (ascii ''hi''), PressSend [] []]))) = 1"
proof -
  let ?st = "chat_run [] [ChangeText (ascii ''hi'')]"
  let ?st2 = "chat_run [] [ChangeText (ascii ''hi''), PressSend [] []]"
  have a: "trim (message ?st) \<noteq> []"
    by (simp add: chat_run_def chat_init_def trim_def ascii_def isSpace_def isWhiteSpace_def
          isLineTerminator_def)
  have b: "apiAvailable ?st" by (simp add: chat_run_def chat_init_def)
  have c: "fetch_throws Rejects" by simp
  have e: "countErrors (chatHistory ?st) = 0"
    by (simp add: chat_run_def chat_init_def countErrors_def)
  have p: "3 \<in> set (pendingChat ?st2)"
    by (simp add: chat_run_def chat_init_def sendMessage_start_def trim_def ascii_def
          isSpace_def isWhiteSpace_def isLineTerminator_def Let_def)
  have e2: "countErrors (chatHistory ?st2) = 0"
    by (simp add: chat_run_def chat_init_def sendMessage_start_def trim_def ascii_def
          isSpace_def isWhiteSpace_def isLineTerminator_def Let_def countErrors_def)
  have "countErrors (chatHistory (sendMessage [] [] [] Rejects ?st))
      = countErrors (chatHistory ?st) + 1"
    using sendMessage_fetch_throws [OF refl c, of "[]" "[ChangeText (ascii ''hi'')]" "[]" "[]" "[]" 0,
            THEN conjunct1] a b by blast
  moreover have "countErrors (chatHistory (sendMessage_resume 3 Rejects [] ?st2))
      = countErrors (chatHistory ?st2) + 1"
    using sendMessage_fetch_throws [OF refl c,
            of "[]" "[ChangeText (ascii ''hi''), PressSend [] []]" "[]" "[]" "[]" 3,
            THEN conjunct2] p by blast
  ultimately show ?thesis using a b c e e2 p by simp
qed

text \<open>
  C7: the ids of the initial history are pairwise distinct, and some sequence of events
  leads to a history in which two messages carry the same id: \<open>sendMessage\<close> starts
  while the health check is outstanding, and \<open>checkApiStatus\<close> then takes its id from
  the history of the first render.
\<close>

theorem message_ids_not_unique:
  "distinct (map m_id (chatHistory (chat_init now0))) \<and>
   (\<exists>evs. \<not> distinct (map m_id (chatHistory (chat_run now0 evs))))"
proof
  show "distinct (map m_id (chatHistory (chat_init now0)))" by (simp add: chat_init_def)
  have "\<not> distinct (map m_id (chatHistory (chat_run now0
          [ChangeText (ascii ''hi''), PressSend now1 now2, HealthSettles Rejects now3])))"
    by (simp add: chat_run_def chat_init_def sendMessage_start_def checkApiStatus_def
          checkApiStatus_try_def checkApiStatus_catch_def trim_def ascii_def isSpace_def
          isWhiteSpace_def isLineTerminator_def Let_def)
  then show "\<exists>evs. \<not> distinct (map m_id (chatHistory (chat_run now0 evs)))" by blast
qed

lemma replaceAll_id:
  assumes none: "\<And>bol t. t = [] \<or> \<not> isMarkupStart (hd t) \<Longrightarrow> m bol t = None"
  shows "list_all (\<lambda>c. \<not> isMarkupStart c) s \<Longrightarrow> replaceAll m bol s = s"
proof (induction s arbitrary: bol)
  case Nil
  then show ?case by (simp add: none)
next
  case (Cons c cs)
  then have "m bol (c # cs) = None" by (intro none) simp
  with Cons show ?case by simp
qed

lemma matchBold_none: "t = [] \<or> \<not> isMarkupStart (hd t) \<Longrightarrow> matchBold bol t = None"
  by (cases t) (auto simp: matchBold_def isMarkupStart_def)

lemma matchItalic_none: "t = [] \<or> \<not> isMarkupStart (hd t) \<Longrightarrow> matchItalic bol t = None"
  by (cases t) (auto simp: matchItalic_def isMarkupStart_def)

lemma matchHeading_none: "t = [] \<or> \<not> isMarkupStart (hd t) \<Longrightarrow> matchHeading bol t = None"
  by (cases t) (auto simp: matchHeading_def isMarkupStart_def Let_def)

lemma matchBullet_none: "t = [] \<or> \<not> isMarkupStart (hd t) \<Longrightarrow> matchBullet bol t = None"
  by (cases t) (auto simp: matchBullet_def isMarkupStart_def Let_def)

lemma matchOrdered_none: "t = [] \<or> \<not> isMarkupStart (hd t) \<Longrightarrow> matchOrdered bol t = None"
  by (cases t) (auto simp: matchOrdered_def isMarkupStart_def Let_def split: list.splits)

lemma stripMarkdown_id:
  "list_all (\<lambda>c. \<not> isMarkupStart c) s \<Longrightarrow> stripMarkdown s = s"
  by (simp add: stripMarkdown_def replaceAll_id matchBold_none matchItalic_none
        matchHeading_none matchBullet_none matchOrdered_none)

text \<open>
  C1 (as amended): when the body of the response has a truthy \<open>success\<close>, the reply
  appended to the history stores the body's \<open>message\<close> field as it is. The text displayed
  for a string message is the message after the five Markdown replacements of the render
  path; it is the message itself when the message has none of the code units \<open>*\<close>,
  \<open>_\<close>, \<open>#\<close>, \<open>-\<close>, \<open>+\<close> and no decimal digit.
\<close>

theorem success_reply_stored:
  assumes "getProp data ''success'' = Inr success" and "truthy success"
  shows "\<exists>msg. getProp data ''message'' = Inr msg \<and>
          chatHistory (sendMessage_resume tempId (Responds status (Json data)) now st)
           = filter (\<lambda>m. m_id m \<noteq> tempId) (chatHistory st) @
             [\<lparr>m_id = tempId, sender = Bot, m_message = msg, timestamp = now,
               isError = False, isWarning = False, m_isLoading = False,
               renderAsPlainText = False\<rparr>] \<and>
          (\<forall>s. msg = Some (JStr s) \<longrightarrow>
             displayedText msg = Inr (stripMarkdown s) \<and>
             (list_all (\<lambda>c. \<not> isMarkupStart c) s \<longrightarrow> displayedText msg = Inr s))"
proof -
  obtain msg where m: "getProp data ''message'' = Inr msg"
    using assms(1) by (cases data) auto
  have "chatHistory (sendMessage_resume tempId (Responds status (Json data)) now st)
           = filter (\<lambda>m. m_id m \<noteq> tempId) (chatHistory st) @
             [\<lparr>m_id = tempId, sender = Bot, m_message = msg, timestamp = now,
               isError = False, isWarning = False, m_isLoading = False,
               renderAsPlainText = False\<rparr>]"
    using assms m by (simp add: sendMessage_resume_def sendMessage_try_def removeLoading_def Let_def)
  with m show ?thesis by (auto simp: stripMarkdown_id)
qed

theorem success_reply_stored_witness:
  "getProp (JObj [(''success'', JBool True), (''message'', JStr (ascii ''Keep going!''))])
     ''success'' = Inr (Some (JBool True)) \<and>
   truthy (Some (JBool True)) \<and>
   (\<exists>msg. getProp (JObj [(''success'', JBool True), (''message'', JStr (ascii ''Keep going!''))])
            ''message'' = Inr msg \<and>
          m_message (last (chatHistory (sendMessage_resume 3
            (Responds 200
               (Json (JObj [(''success'', JBool True),
                            (''message'', JStr (ascii ''Keep going!''))])))
            [] (chat_init [])))) = msg \<and>
          msg = Some (JStr (ascii ''Keep going!'')) \<and>
          displayedText msg = Inr (ascii ''Keep going!''))"
proof -
  let ?d = "JObj [(''success'', JBool True), (''message'', JStr (ascii ''Keep going!''))]"
  have a: "getProp ?d ''success'' = Inr (Some (JBool True))" by simp
  have b: "truthy (Some (JBool True))" by simp
  have c: "getProp ?d ''message'' = Inr (Some (JStr (ascii ''Keep going!'')))" by simp
  have p: "list_all (\<lambda>c. \<not> isMarkupStart c) (ascii ''Keep going!'')"
    by (simp add: ascii_def isMarkupStart_def isDigit_def)
  from success_reply_stored [OF a b, of 3 200 "[]" "chat_init []"] c p
  have "m_message (last (chatHistory (sendMessage_resume 3 (Responds 200 (Json ?d)) []
          (chat_init [])))) = Some (JStr (ascii ''Keep going!'')) \<and>
        displayedText (Some (JStr (ascii ''Keep going!''))) = Inr (ascii ''Keep going!'')"
    by auto
  with a b c show ?thesis by blast
qed

text \<open>
  C1 as stated fails: the user sends \<open>hi\<close>, the response is
  \<open>{"success": true, "message": "**OK**"}\<close>, and the text displayed for the reply is
  \<open>OK\<close>, not the message field.
\<close>

theorem displayed_differs_from_message:
  "getProp (JObj [(''success'', JBool True), (''message'', JStr (ascii ''**OK**''))]) ''success''
     = Inr (Some (JBool True)) \<and>
   getProp (JObj [(''success'', JBool True), (''message'', JStr (ascii ''**OK**''))]) ''message''
     = Inr (Some (JStr (ascii ''**OK**''))) \<and>
   displayedText (m_message (last (chatHistory (chat_run []
      [ChangeText (ascii ''hi''), PressSend [] [],
       ChatSettles 3 (Responds 200
         (Json (JObj [(''success'', JBool True), (''message'', JStr (ascii ''**OK**''))]))) []]))))
     = Inr (ascii ''OK'') \<and>
   ascii ''OK'' \<noteq> ascii ''**OK**''"
  by (simp add: chat_run_def sendMessage_start_def sendMessage_resume_def sendMessage_try_def
        removeLoading_def Let_def chat_init_def trim_def stripMarkdown_def ascii_def
        matchBold_def matchItalic_def matchHeading_def matchBullet_def matchOrdered_def
        isLineTerminator_def isSpace_def isWhiteSpace_def isDigit_def restOfLine_def)


section \<open>Properties of ProfileScreen and WorkoutsScreen\<close>

lemma fetchReports_try_rejected:
  "\<not> reportsAccepted res \<Longrightarrow> fetchReports_try res = Inr [] \<or> (\<exists>e. fetchReports_try res = Inl e)"
  by (cases res rule: reportsAccepted.cases)
     (auto simp: fetchReports_try_def split: sum.splits option.splits json.splits)

text \<open>
  C10: \<open>fetchReports\<close> always ends with \<open>loading\<close> false, and whenever the request is
  not accepted (the network fails, the status is not 2xx, the body is not JSON, or it
  lacks a truthy \<open>success\<close> or an array \<open>reports\<close>) it ends with an empty report list,
  whatever the list was before.
\<close>

theorem fetchReports_clears_on_failure:
  "loading (fetchReports res st) = False \<and>
   (\<not> reportsAccepted res \<longrightarrow> reports (fetchReports res st) = [])"
proof
  show "loading (fetchReports res st) = False"
    by (simp add: fetchReports_def Let_def split: sum.splits)
  show "\<not> reportsAccepted res \<longrightarrow> reports (fetchReports res st) = []"
  proof
    assume "\<not> reportsAccepted res"
    from fetchReports_try_rejected [OF this] show "reports (fetchReports res st) = []"
      by (auto simp: fetchReports_def Let_def)
  qed
qed

theorem fetchReports_clears_on_failure_witness:
  "\<not> reportsAccepted (Responds 500 (NotJson [])) \<and>
   reports (profile_init\<lparr>reports := [JObj [(''filename'', JStr (ascii ''a.html''))]]\<rparr>) \<noteq> [] \<and>
   reports (fetchReports (Responds 500 (NotJson []))
              (profile_init\<lparr>reports := [JObj [(''filename'', JStr (ascii ''a.html''))]]\<rparr>)) = [] \<and>
   loading (fetchReports (Responds 500 (NotJson []))
              (profile_init\<lparr>reports := [JObj [(''filename'', JStr (ascii ''a.html''))]]\<rparr>)) = False"
  using fetchReports_clears_on_failure [of "Responds 500 (NotJson [])"
          "profile_init\<lparr>reports := [JObj [(''filename'', JStr (ascii ''a.html''))]]\<rparr>"]
  by simp

lemma upload_not_rendered:
  assumes d: "outcome (apiRequest r) = Inr data"
    and u: "getProp data ''report_url'' = Inr None" and p: "getProp data ''report_path'' = Inr None"
  shows "\<not> viewReportButtonRendered (uploadVideo videoUri fileInfo r reportRes st)"
proof -
  have "reportHtml (uploadVideo videoUri fileInfo r reportRes st) = None"
    using d u p
    by (auto simp: uploadVideo_def uploadVideo_try_def loadReport_def Let_def
          split: sum.splits)
  then show ?thesis
    by (simp add: viewReportButtonRendered_def split: option.splits sum.splits prod.splits)
qed

lemma testVideo_not_rendered:
  assumes d: "outcome (apiRequest r) = Inr data"
    and s: "getProp data ''success'' = Inr success" "truthy success"
    and v: "map_of TEST_VIDEOS exerciseType = Some videoUrl"
    and u: "getProp data ''report_url'' = Inr None" and p: "getProp data ''report_path'' = Inr None"
  shows "analysisResult (useTestVideo exerciseType r rnd encoded st) = Some data \<and>
         \<not> viewReportButtonRendered (useTestVideo exerciseType r rnd encoded st)"
proof -
  have a: "analysisResult (useTestVideo exerciseType r rnd encoded st) = Some data"
    using d s v by (simp add: useTestVideo_def Let_def)
  then show ?thesis using u p by (simp add: viewReportButtonRendered_def)
qed

text \<open>
  C4: let an analysis result have neither \<open>report_url\<close> nor \<open>report_path\<close>. A
  WorkoutsScreen that shows it does not render the button that opens the report, whatever
  report HTML is left in the state; in particular the button is not rendered after
  \<open>uploadVideo\<close> has received it, nor after \<open>useTestVideo\<close> has received it with a truthy
  \<open>success\<close>. When a report item of the ProfileScreen has no \<open>report_url\<close>, pressing it
  shows an alert and leaves the modal state as it was.
\<close>

theorem no_report_action_without_link:
  assumes u: "getProp result ''report_url'' = Inr None"
    and p: "getProp result ''report_path'' = Inr None"
  shows
    "(analysisResult st = Some result \<longrightarrow> \<not> viewReportButtonRendered st) \<and>
     (outcome (apiRequest r) = Inr result \<longrightarrow>
        \<not> viewReportButtonRendered (uploadVideo videoUri fileInfo r reportRes st)) \<and>
     (outcome (apiRequest r) = Inr result \<and> getProp result ''success'' = Inr success \<and>
      truthy success \<and> map_of TEST_VIDEOS exerciseType = Some videoUrl \<longrightarrow>
        analysisResult (useTestVideo exerciseType r rnd encoded st) = Some result \<and>
        \<not> viewReportButtonRendered (useTestVideo exerciseType r rnd encoded st)) \<and>
     (getProp report ''report_url'' = Inr None \<longrightarrow>
        handleReportItemPress report pst
          = Inr (pst\<lparr>p_alerts := p_alerts pst @ [CannotOpenReport]\<rparr>))"
proof (intro conjI impI)
  show "\<not> viewReportButtonRendered st" if "analysisResult st = Some result"
    using that u p by (simp add: viewReportButtonRendered_def)
  show "\<not> viewReportButtonRendered (uploadVideo videoUri fileInfo r reportRes st)"
    if "outcome (apiRequest r) = Inr result"
    using that u p by (rule upload_not_rendered)
  show "analysisResult (useTestVideo exerciseType r rnd encoded st) = Some result"
       "\<not> viewReportButtonRendered (useTestVideo exerciseType r rnd encoded st)"
    if "outcome (apiRequest r) = Inr result \<and> getProp result ''success'' = Inr success \<and>
      truthy success \<and> map_of TEST_VIDEOS exerciseType = Some videoUrl"
    using that testVideo_not_rendered [of r result success exerciseType videoUrl rnd encoded st] u p
    by blast+
  show "handleReportItemPress report pst
          = Inr (pst\<lparr>p_alerts := p_alerts pst @ [CannotOpenReport]\<rparr>)"
    if "getProp report ''report_url'' = Inr None"
    using that by (simp add: handleReportItemPress_def)
qed

theorem no_report_action_without_link_witness:
  "getProp (JObj [(''success'', JBool True), (''counter'', JNum 3)]) ''report_url'' = Inr None \<and>
   getProp (JObj [(''success'', JBool True), (''counter'', JNum 3)]) ''report_path'' = Inr None \<and>
   outcome (apiRequest (FetchFirst (Responds 200
       (Json (JObj [(''success'', JBool True), (''counter'', JNum 3)])))))
     = Inr (JObj [(''success'', JBool True), (''counter'', JNum 3)]) \<and>
   getProp (JObj [(''success'', JBool True), (''counter'', JNum 3)]) ''success''
     = Inr (Some (JBool True)) \<and>
   truthy (Some (JBool True)) \<and>
   map_of TEST_VIDEOS (ascii ''squat'')
     = Some (ascii ''https://storage.googleapis.com/gtv-videos-bucket/sample/ForBiggerBlazes.mp4'') \<and>
   viewReportButtonRendered
     (workouts_init\<lparr>analysisResult := Some (JObj [(''report_url'', JStr (ascii ''http://h/r''))]),
        showResult := True,
        reportHtml := Some (FetchedHtml (NotJson (ascii ''<p>old</p>'')))\<rparr>) \<and>
   \<not> viewReportButtonRendered
     (useTestVideo (ascii ''squat'')
        (FetchFirst (Responds 200 (Json (JObj [(''success'', JBool True), (''counter'', JNum 3)]))))
        (constantDraws sixTenths) []
        (workouts_init\<lparr>analysisResult := Some (JObj [(''report_url'', JStr (ascii ''http://h/r''))]),
           showResult := True,
           reportHtml := Some (FetchedHtml (NotJson (ascii ''<p>old</p>'')))\<rparr>)) \<and>
   \<not> viewReportButtonRendered
     (uploadVideo (ascii ''file:///v.mp4'') (Inr True)
        (FetchFirst (Responds 200 (Json (JObj [(''success'', JBool True), (''counter'', JNum 3)]))))
        Rejects
        (workouts_init\<lparr>analysisResult := Some (JObj [(''report_url'', JStr (ascii ''http://h/r''))]),
           showResult := True,
           reportHtml := Some (FetchedHtml (NotJson (ascii ''<p>old</p>'')))\<rparr>)) \<and>
   getProp (JObj [(''filename'', JStr (ascii ''a.html''))]) ''report_url'' = Inr None \<and>
   handleReportItemPress (JObj [(''filename'', JStr (ascii ''a.html''))]) profile_init
     = Inr (profile_init\<lparr>p_alerts := [CannotOpenReport]\<rparr>)"
proof -
  let ?d = "JObj [(''success'', JBool True), (''counter'', JNum 3)]"
  let ?r = "FetchFirst (Responds 200 (Json ?d))"
  let ?st = "workouts_init\<lparr>analysisResult := Some (JObj [(''report_url'', JStr (ascii ''http://h/r''))]),
        showResult := True,
        reportHtml := Some (FetchedHtml (NotJson (ascii ''<p>old</p>'')))\<rparr>"
  have u: "getProp ?d ''report_url'' = Inr None" by simp
  have p: "getProp ?d ''report_path'' = Inr None" by simp
  have o: "outcome (apiRequest ?r) = Inr ?d"
    by (simp add: apiRequest_def apiRequest_try_def ok_def)
  have s: "getProp ?d ''success'' = Inr (Some (JBool True))" "truthy (Some (JBool True))"
    by simp_all
  have v: "map_of TEST_VIDEOS (ascii ''squat'')
     = Some (ascii ''https://storage.googleapis.com/gtv-videos-bucket/sample/ForBiggerBlazes.mp4'')"
    by (simp add: TEST_VIDEOS_def ascii_def)
  have old: "viewReportButtonRendered ?st"
    by (simp add: viewReportButtonRendered_def workouts_init_def ascii_def)
  have q: "getProp (JObj [(''filename'', JStr (ascii ''a.html''))]) ''report_url'' = Inr None"
    by simp
  from no_report_action_without_link [OF u p, of ?st ?r "ascii ''file:///v.mp4''" "Inr True" Rejects
         "Some (JBool True)" "ascii ''squat''"
         "ascii ''https://storage.googleapis.com/gtv-videos-bucket/sample/ForBiggerBlazes.mp4''"
         "constantDraws sixTenths" "[]" "JObj [(''filename'', JStr (ascii ''a.html''))]" profile_init]
       o s v q
  have "\<not> viewReportButtonRendered (uploadVideo (ascii ''file:///v.mp4'') (Inr True) ?r Rejects ?st)"
       "\<not> viewReportButtonRendered (useTestVideo (ascii ''squat'') ?r (constantDraws sixTenths) [] ?st)"
       "handleReportItemPress (JObj [(''filename'', JStr (ascii ''a.html''))]) profile_init
          = Inr (profile_init\<lparr>p_alerts := p_alerts profile_init @ [CannotOpenReport]\<rparr>)"
    by blast+
  then show ?thesis using u p o s v old q by (simp add: profile_init_def)
qed

lemma run_Cons: "call_run c (e # evs) = call_run (call_step c e) evs"
  by (simp add: call_run_def)

lemma run_no_timer:
  "timer c = None \<Longrightarrow>
   signalAborted (call_run c evs) = signalAborted c \<and>
   timer (call_run c evs) = None \<and>
   settled (call_run c evs)
     = (case settled c of Some r \<Rightarrow> Some r | None \<Rightarrow> map_option FetchFirst (firstSettle evs))"
proof (induction evs arbitrary: c)
  case Nil
  then show ?case by (simp add: call_run_def split: option.splits)
next
  case (Cons e evs)
  show ?case
  proof (cases e)
    case (Elapse d)
    with Cons show ?thesis by (simp add: run_Cons split: option.splits)
  next
    case (Settle res)
    show ?thesis
    proof (cases "settled c")
      case None
      with Cons.prems Settle Cons.IH [of "c\<lparr>timer := None, settled := Some (FetchFirst res)\<rparr>"]
      show ?thesis by (simp add: run_Cons)
    next
      case (Some r)
      with Cons Settle show ?thesis by (simp add: run_Cons)
    qed
  next
    case Leave
    with Cons show ?thesis by (simp add: run_Cons split: option.splits)
  qed
qed

lemma run_timer:
  "timer c = Some t \<Longrightarrow> \<not> signalAborted c \<Longrightarrow> settled c = None \<Longrightarrow>
   signalAborted (call_run c evs) = timesOut t evs \<and>
   settled (call_run c evs)
     = (if timesOut t evs then Some TimerFirst else map_option FetchFirst (firstSettle evs))"
proof (induction evs arbitrary: c t)
  case Nil
  then show ?case by (simp add: call_run_def)
next
  case (Cons e evs)
  show ?case
  proof (cases e)
    case (Elapse d)
    show ?thesis
    proof (cases "d < t")
      case True
      with Cons.prems Elapse Cons.IH [of "c\<lparr>timer := Some (t - d)\<rparr>" "t - d"]
      show ?thesis by (simp add: run_Cons)
    next
      case False
      with Cons.prems Elapse
        run_no_timer [of "c\<lparr>timer := None, signalAborted := True, settled := Some TimerFirst\<rparr>" evs]
      show ?thesis by (simp add: run_Cons)
    qed
  next
    case (Settle res)
    with Cons.prems run_no_timer [of "c\<lparr>timer := None, settled := Some (FetchFirst res)\<rparr>" evs]
    show ?thesis by (simp add: run_Cons)
  next
    case Leave
    with Cons.prems Cons.IH [of c t] show ?thesis by (simp add: run_Cons)
  qed
qed

lemma apiRequest_timeout_iff:
  "aborted (apiRequest r) = (r = TimerFirst) \<and>
   (outcome (apiRequest r) = Inl TimeoutError) = (r = TimerFirst)"
  by (auto simp: apiRequest_def apiRequest_try_def
        split: race.splits fetch_result.splits body.splits)

text \<open>
  C6 (as amended): no network call made by a screen is explicitly cancelled, except a
  call made through \<open>apiRequest\<close> whose timeout elapses before \<open>fetch\<close> settles. A call
  without a timer (every \<open>fetch\<close> of ChatScreen and ProfileScreen, and the report fetch of
  \<open>uploadVideo\<close>) is never aborted, however much time passes, and stays pending until
  the network settles it. A call with timeout \<open>t\<close> (\<open>checkServerHealth\<close>, the analysis
  requests of \<open>uploadVideo\<close> and \<open>useTestVideo\<close>) is aborted exactly when \<open>t\<close> ms pass
  before \<open>fetch\<close> settles; exactly then \<open>fetch\<close> rejects with the abort and \<open>apiRequest\<close>
  throws the timeout error; when \<open>fetch\<close> settles first, the timer is cleared and the call
  is never aborted.
\<close>

theorem cancellation_only_by_apiRequest_timeout:
  "(callTimeout scr req = None \<longrightarrow>
      \<not> signalAborted (call_run (startCall scr req) evs) \<and>
      settled (call_run (startCall scr req) evs) = map_option FetchFirst (firstSettle evs)) \<and>
   (callTimeout scr req = Some t \<longrightarrow>
      signalAborted (call_run (startCall scr req) evs) = timesOut t evs \<and>
      settled (call_run (startCall scr req) evs)
        = (if timesOut t evs then Some TimerFirst else map_option FetchFirst (firstSettle evs)) \<and>
      (\<forall>r. settled (call_run (startCall scr req) evs) = Some r \<longrightarrow>
         aborted (apiRequest r) = timesOut t evs \<and>
         (outcome (apiRequest r) = Inl TimeoutError) = timesOut t evs)) \<and>
   (callTimeout scr req \<noteq> None) =
      (scr = WorkoutsScreen \<and> (req = GetHealth \<or> (\<exists>v e t'. req = PostAnalyze v e t')))"
proof (intro conjI impI)
  assume n: "callTimeout scr req = None"
  with run_no_timer [of "startCall scr req" evs]
  show "\<not> signalAborted (call_run (startCall scr req) evs)"
    and "settled (call_run (startCall scr req) evs) = map_option FetchFirst (firstSettle evs)"
    by (simp_all add: startCall_def)
next
  assume t: "callTimeout scr req = Some t"
  with run_timer [of "startCall scr req" t evs]
  have a: "signalAborted (call_run (startCall scr req) evs) = timesOut t evs"
    and b: "settled (call_run (startCall scr req) evs)
        = (if timesOut t evs then Some TimerFirst else map_option FetchFirst (firstSettle evs))"
    by (simp_all add: startCall_def)
  from a show "signalAborted (call_run (startCall scr req) evs) = timesOut t evs" .
  from b show "settled (call_run (startCall scr req) evs)
        = (if timesOut t evs then Some TimerFirst else map_option FetchFirst (firstSettle evs))" .
  show "\<forall>r. settled (call_run (startCall scr req) evs) = Some r \<longrightarrow>
         aborted (apiRequest r) = timesOut t evs \<and>
         (outcome (apiRequest r) = Inl TimeoutError) = timesOut t evs"
    using b apiRequest_timeout_iff by (auto split: if_splits)
next
  show "(callTimeout scr req \<noteq> None) =
      (scr = WorkoutsScreen \<and> (req = GetHealth \<or> (\<exists>v e t'. req = PostAnalyze v e t')))"
    by (cases "(scr, req)" rule: callTimeout.cases) auto
qed

theorem cancellation_only_by_apiRequest_timeout_witness:
  "callTimeout ChatScreen (PostChat (ascii ''hi'')) = None \<and>
   \<not> signalAborted (call_run (startCall ChatScreen (PostChat (ascii ''hi'')))
        [Elapse 600000, Leave, Settle Rejects, Elapse 600000]) \<and>
   settled (call_run (startCall ChatScreen (PostChat (ascii ''hi'')))
        [Elapse 600000, Leave, Settle Rejects, Elapse 600000]) = Some (FetchFirst Rejects) \<and>
   callTimeout WorkoutsScreen (PostAnalyze (ascii ''file:///v.mp4'') (ascii ''squat'') 120000)
     = Some 120000 \<and>
   timesOut 120000 [Elapse 119999, Leave, Elapse 1, Settle Rejects] \<and>
   signalAborted
     (call_run (startCall WorkoutsScreen
                  (PostAnalyze (ascii ''file:///v.mp4'') (ascii ''squat'') 120000))
        [Elapse 119999, Leave, Elapse 1, Settle Rejects]) \<and>
   settled
     (call_run (startCall WorkoutsScreen
                  (PostAnalyze (ascii ''file:///v.mp4'') (ascii ''squat'') 120000))
        [Elapse 119999, Leave, Elapse 1, Settle Rejects]) = Some TimerFirst \<and>
   outcome (apiRequest TimerFirst) = Inl TimeoutError"
proof -
  have n: "callTimeout ChatScreen (PostChat (ascii ''hi'')) = None" by simp
  have t: "callTimeout WorkoutsScreen
             (PostAnalyze (ascii ''file:///v.mp4'') (ascii ''squat'') 120000) = Some 120000"
    by simp
  have o: "timesOut 120000 [Elapse 119999, Leave, Elapse 1, Settle Rejects]" by simp
  from cancellation_only_by_apiRequest_timeout
         [of ChatScreen "PostChat (ascii ''hi'')" "[Elapse 600000, Leave, Settle Rejects, Elapse 600000]"]
       n
  have a: "\<not> signalAborted (call_run (startCall ChatScreen (PostChat (ascii ''hi'')))
              [Elapse 600000, Leave, Settle Rejects, Elapse 600000])"
          "settled (call_run (startCall ChatScreen (PostChat (ascii ''hi'')))
              [Elapse 600000, Leave, Settle Rejects, Elapse 600000]) = Some (FetchFirst Rejects)"
    by simp_all
  from cancellation_only_by_apiRequest_timeout
         [of WorkoutsScreen "PostAnalyze (ascii ''file:///v.mp4'') (ascii ''squat'') 120000"
             "[Elapse 119999, Leave, Elapse 1, Settle Rejects]" 120000]
       t o
  have b: "signalAborted
             (call_run (startCall WorkoutsScreen
                          (PostAnalyze (ascii ''file:///v.mp4'') (ascii ''squat'') 120000))
                [Elapse 119999, Leave, Elapse 1, Settle Rejects])"
          "settled
             (call_run (startCall WorkoutsScreen
                          (PostAnalyze (ascii ''file:///v.mp4'') (ascii ''squat'') 120000))
                [Elapse 119999, Leave, Elapse 1, Settle Rejects]) = Some TimerFirst"
          "outcome (apiRequest TimerFirst) = Inl TimeoutError"
    by simp_all
  from n t o a b show ?thesis by blast
qed

text \<open>
  C6 as stated fails: when the timeout of an \<open>apiRequest\<close> call elapses, the timer
  callback calls \<open>controller.abort()\<close>, which cancels the request in flight, and the call
  throws the timeout error.
\<close>

theorem apiRequest_timeout_cancels:
  "callTimeout WorkoutsScreen GetHealth = Some 30000 \<and>
   signalAborted (call_run (startCall WorkoutsScreen GetHealth) [Elapse 30000]) \<and>
   settled (call_run (startCall WorkoutsScreen GetHealth) [Elapse 30000]) = Some TimerFirst \<and>
   aborted (apiRequest TimerFirst) \<and> outcome (apiRequest TimerFirst) = Inl TimeoutError"
  by (simp add: call_run_def startCall_def apiRequest_def apiRequest_try_def)

text \<open>
  The arithmetic of the mock result at two draws: at the double nearest to 0.6 the
  rounded products are 1.2, 3 and 6, which gives two errors with count 4 and first
  timestamp 6; at the largest double below 1 the product with 10 rounds to a double below
  10.
\<close>

lemma mockErrors_sixTenths:
  "mockErrors (constantDraws sixTenths) (ascii ''squat'') =
     [JObj [(''type'', JStr [0x819D, 0x76D6, 0x5185, 0x6263]),
            (''count'', JNum 4), (''first_timestamp'', JNum 6)],
      JObj [(''type'', JStr [0x91CD, 0x5FC3, 0x8FC7, 0x4E8E, 0x9760, 0x524D]),
            (''count'', JNum 4), (''first_timestamp'', JNum 6)]]"
proof -
  have a: "1 < dval sixTenths * 2" by (simp add: sixTenths_def dval_def)
  have b: "dfloor (dtimes sixTenths 2) = 1"
    by (simp add: sixTenths_def dtimes_def roundDouble_def dfloor_def bitlength.simps Let_def)
  have c: "dfloor (dtimes sixTenths 5) = 3"
    by (simp add: sixTenths_def dtimes_def roundDouble_def dfloor_def bitlength.simps Let_def)
  have d: "dval (dtimes sixTenths 10) = 6"
    by (simp add: sixTenths_def dtimes_def roundDouble_def bitlength.simps Let_def dval_def)
  have e: "map_of possibleErrors (ascii ''squat'')
             = Some [ [0x819D, 0x76D6, 0x5185, 0x6263],
                      [0x91CD, 0x5FC3, 0x8FC7, 0x4E8E, 0x9760, 0x524D],
                      [0x4E0B, 0x8E72, 0x4E0D, 0x591F, 0x6DF1]]"
    by (simp add: possibleErrors_def ascii_def)
  have f: "[0 ..< 2] = [0, Suc 0]" by (simp add: upt_rec)
  show ?thesis
    by (simp add: mockErrors_def constantDraws_def a b c d e f Let_def)
qed

lemma largest_draw:
  "dval \<lparr>mantissa = 2 ^ 53 - 1, exponent = - 53\<rparr> < 1 \<and>
   dfloor (dtimes \<lparr>mantissa = 2 ^ 53 - 1, exponent = - 53\<rparr> 10) = 9 \<and>
   \<lfloor>dval \<lparr>mantissa = 2 ^ 53 - 1, exponent = - 53\<rparr> * 10\<rfloor> = 9"
  by (simp add: dtimes_def roundDouble_def dfloor_def bitlength.simps Let_def dval_def)




lemma apiFails_outcome: "apiFails r \<Longrightarrow> \<exists>e. outcome (apiRequest r) = Inl e"
  by (cases r rule: apiFails.cases)
     (auto simp: apiRequest_def apiRequest_try_def split: option.splits)

lemma resume_effects:
  "alerts (sendMessage_resume t res now st) = alerts st \<and>
   requests (sendMessage_resume t res now st) = requests st"
  by (cases res)
     (auto simp: sendMessage_resume_def sendMessage_try_def sendMessage_catch_def
        removeLoading_def Let_def split: option.splits sum.splits json.splits body.splits)

lemma checkApiStatus_fulfils:
  "checkApiStatus_promise rendered res now st = (checkApiStatus rendered res now st, None)"
  by (simp add: checkApiStatus_promise_def checkApiStatus_def tryCatch_def Let_def
        split: prod.splits option.splits)

lemma sendMessage_fulfils:
  "sendMessage_promise tempId res now st = (sendMessage_resume tempId res now st, None)"
  by (simp add: sendMessage_promise_def sendMessage_resume_def tryCatch_def andFinally_def Let_def
        split: prod.splits option.splits)

lemma fetchReports_fulfils:
  "fetchReports_promise res st = (fetchReports res st, None)"
  by (simp add: fetchReports_promise_def fetchReports_def tryCatch_def andFinally_def Let_def
        split: sum.splits)

lemma checkServerHealth_fulfils:
  "checkServerHealth_promise r st = (checkServerHealth r st, None)"
  by (simp add: checkServerHealth_promise_def checkServerHealth_def tryCatch_def Let_def
        split: sum.splits)

lemma uploadVideo_fulfils:
  "uploadVideo_promise videoUri fileInfo r reportRes st
     = (uploadVideo videoUri fileInfo r reportRes st, None)"
  by (simp add: uploadVideo_promise_def uploadVideo_def tryCatch_def andFinally_def Let_def
        split: prod.splits option.splits)

lemma useTestVideo_fulfils:
  "useTestVideo_promise exerciseType r rnd encoded st
     = (useTestVideo exerciseType r rnd encoded st, None)"
  by (simp add: useTestVideo_promise_def useTestVideo_def tryCatch_def andFinally_def Let_def
        split: option.splits sum.splits)

lemma loadReport_fulfils:
  "loadReport_promise data reportRes st = (loadReport data reportRes st, None)"
  by (simp add: loadReport_promise_def loadReport_def tryCatch_def Let_def
        split: sum.splits fetch_result.splits)

lemma getProp_message:
  "getProp data ''success'' = Inr success \<Longrightarrow> \<exists>m. getProp data ''message'' = Inr m"
  by (cases data) auto

lemma resume_last:
  "isError (last (chatHistory (sendMessage_resume tempId res now st))) = (\<not> chatAccepted res)"
proof (cases "fetch_throws res")
  case True
  then have "\<not> chatAccepted res" by (cases res rule: fetch_throws.cases) simp_all
  with True show ?thesis by (simp add: resume_throws_history)
next
  case False
  then obtain status data where res: "res = Responds status (Json data)"
    by (cases res rule: fetch_throws.cases) simp_all
  show ?thesis
  proof (cases "getProp data ''success''")
    case (Inl e)
    then show ?thesis
      by (simp add: res sendMessage_resume_def sendMessage_try_def sendMessage_catch_def
            removeLoading_def Let_def)
  next
    case (Inr success)
    then obtain m where m: "getProp data ''message'' = Inr m" using getProp_message by blast
    show ?thesis
    proof (cases "truthy success")
      case True
      with Inr m show ?thesis
        by (simp add: res sendMessage_resume_def sendMessage_try_def removeLoading_def Let_def)
    next
      case False
      from falsy_success_reply [OF Inr False, of tempId status now st]
      have "isError (last (chatHistory (sendMessage_resume tempId (Responds status (Json data)) now st)))"
        by auto
      with Inr False show ?thesis by (simp add: res)
    qed
  qed
qed

lemma resume_status:
  "sendMessage_resume tempId (Responds status b) now st
     = sendMessage_resume tempId (Responds status' b) now st"
  by (cases b) (simp_all add: sendMessage_resume_def sendMessage_try_def)

lemma health_status:
  "checkApiStatus rendered (Responds status b) now st
     = checkApiStatus rendered (Responds status' b) now st"
  by (cases b) (simp_all add: checkApiStatus_def checkApiStatus_try_def)

lemma health_fails:
  "\<not> healthAnswered res \<Longrightarrow>
   checkApiStatus rendered res now st =
     st\<lparr>apiAvailable := False,
        chatHistory := chatHistory st @
          [\<lparr>m_id = length (chatHistory rendered) + 1, sender = Bot,
            m_message = Some (JStr connectFailedText), timestamp = now,
            isError = True, isWarning = False, m_isLoading = False,
            renderAsPlainText = False\<rparr>],
        alerts := alerts st @ [ConnectionFailed],
        pendingHealth := False\<rparr>"
  by (cases res rule: healthAnswered.cases)
     (auto simp: checkApiStatus_def checkApiStatus_try_def checkApiStatus_catch_def
        split: sum.splits)

lemma health_answered:
  "healthAnswered res \<Longrightarrow>
   alerts (checkApiStatus rendered res now st) = alerts st \<and>
   requests (checkApiStatus rendered res now st) = requests st \<and>
   filter isError (chatHistory (checkApiStatus rendered res now st))
     = filter isError (chatHistory st)"
  by (cases res rule: healthAnswered.cases)
     (auto simp: checkApiStatus_def checkApiStatus_try_def Let_def split: sum.splits)

lemma report_fetch_fails:
  assumes d: "outcome (apiRequest r) = Inr data"
    and s: "getProp data ''success'' = Inr success" "truthy success"
    and u: "getProp data ''report_url'' = Inr report_url" "truthy report_url"
    and f: "\<not> reportLoaded reportRes"
  shows "w_alerts (uploadVideo videoUri (Inr True) r reportRes st) = w_alerts st \<and>
         w_requests (uploadVideo videoUri (Inr True) r reportRes st)
           = w_requests st @ [PostAnalyze videoUri (selectedExercise st) 120000, GetReport report_url] \<and>
         reportHtml (uploadVideo videoUri (Inr True) r reportRes st)
           = Some (case reportRes of
                     Rejects \<Rightarrow> LoadErrorHtml report_url NetworkError
                   | Responds status htmlContent \<Rightarrow> LoadFailedHtml report_url status)"
proof -
  obtain p where p: "getProp data ''report_path'' = Inr p"
    using s(1) by (cases data) auto
  show ?thesis using d s u f p
    by (cases reportRes)
       (simp_all add: uploadVideo_def uploadVideo_try_def loadReport_def Let_def)
qed

lemma upload_failure_alerts:
  assumes "analysisFails r"
  shows "\<exists>a. w_alerts (uploadVideo videoUri (Inr True) r reportRes wst) = w_alerts wst @ [a]"
proof (cases "outcome (apiRequest r)")
  case (Inl e)
  then show ?thesis by (simp add: uploadVideo_def uploadVideo_try_def Let_def)
next
  case (Inr data)
  show ?thesis
  proof (cases "getProp data ''success''")
    case (Inl e)
    with Inr show ?thesis by (simp add: uploadVideo_def uploadVideo_try_def Let_def)
  next
    case s: (Inr success)
    then obtain m where m: "getProp data ''message'' = Inr m" using getProp_message by blast
    from assms Inr s have "\<not> truthy success" by (simp add: analysisFails_def)
    with Inr s m show ?thesis by (simp add: uploadVideo_def uploadVideo_try_def Let_def)
  qed
qed

lemma health_failure_alerts:
  "\<not> serverAvailable r \<Longrightarrow>
   \<exists>a. w_alerts (checkServerHealth r wst) = w_alerts wst @ [a]"
  by (auto simp: checkServerHealth_def serverAvailable_def Let_def split: sum.splits)

lemma health_requests:
  "requests (checkApiStatus rendered res now st) = requests st"
  by (cases "healthAnswered res") (simp_all add: health_fails health_answered)

text \<open>
  C3 (as amended): every failure of a network call made by a screen is dealt with at the
  call site: the promise of each handler fulfils, whatever the call delivers, and no
  handler issues the request again. What the user is shown depends on the call site.
  \<open>sendMessage\<close> appends an inline error-flagged chat message exactly when the body is
  not JSON with a truthy \<open>success\<close>. \<open>checkApiStatus\<close> shows an alert and appends an
  error-flagged message when \<open>fetch\<close>, \<open>response.json()\<close> or the reading of
  \<open>agent_status\<close> throws, and neither otherwise. Neither reads the HTTP status, so a
  non-2xx response is treated as a 2xx response with the same body. When \<open>apiRequest\<close>
  fails (timeout, network failure, non-2xx status, body not JSON), it throws to its
  caller; \<open>checkServerHealth\<close> and \<open>uploadVideo\<close> then show exactly one alert, while
  \<open>useTestVideo\<close> shows none and schedules a mock result. \<open>checkServerHealth\<close> also
  shows one alert whenever it does not read an available agent from the response, and
  \<open>uploadVideo\<close> whenever it does not read a truthy \<open>success\<close>. When the report fetch of
  \<open>uploadVideo\<close> fails, an error page becomes the report HTML and no alert is shown.
  When \<open>fetchReports\<close> does not accept the response, it shows no alert and empties the
  list.
\<close>

theorem network_failures_handled:
  "(sendMessage_promise tempId res now cst = (sendMessage_resume tempId res now cst, None) \<and>
    isError (last (chatHistory (sendMessage_resume tempId res now cst))) = (\<not> chatAccepted res) \<and>
    alerts (sendMessage_resume tempId res now cst) = alerts cst \<and>
    requests (sendMessage_resume tempId res now cst) = requests cst \<and>
    sendMessage_resume tempId (Responds status b) now cst
      = sendMessage_resume tempId (Responds status' b) now cst) \<and>
   (checkApiStatus_promise rendered res now cst = (checkApiStatus rendered res now cst, None) \<and>
    (\<not> healthAnswered res \<longrightarrow>
       isError (last (chatHistory (checkApiStatus rendered res now cst))) \<and>
       alerts (checkApiStatus rendered res now cst) = alerts cst @ [ConnectionFailed]) \<and>
    (healthAnswered res \<longrightarrow>
       filter isError (chatHistory (checkApiStatus rendered res now cst))
         = filter isError (chatHistory cst) \<and>
       alerts (checkApiStatus rendered res now cst) = alerts cst) \<and>
    requests (checkApiStatus rendered res now cst) = requests cst \<and>
    checkApiStatus rendered (Responds status b) now cst
      = checkApiStatus rendered (Responds status' b) now cst) \<and>
   (checkServerHealth_promise r wst = (checkServerHealth r wst, None) \<and>
    uploadVideo_promise videoUri fileInfo r reportRes wst
      = (uploadVideo videoUri fileInfo r reportRes wst, None) \<and>
    loadReport_promise data reportRes wst = (loadReport data reportRes wst, None) \<and>
    useTestVideo_promise exerciseType r rnd encoded wst
      = (useTestVideo exerciseType r rnd encoded wst, None)) \<and>
   (apiFails r \<longrightarrow>
      (\<exists>e. outcome (apiRequest r) = Inl e \<and>
         w_alerts (checkServerHealth r wst) = w_alerts wst @ [ConnectionError] \<and>
         w_requests (checkServerHealth r wst) = w_requests wst @ [GetHealth] \<and>
         w_alerts (uploadVideo videoUri (Inr True) r reportRes wst)
           = w_alerts wst @ [UploadError e] \<and>
         w_requests (uploadVideo videoUri (Inr True) r reportRes wst)
           = w_requests wst @ [PostAnalyze videoUri (selectedExercise wst) 120000]) \<and>
      (map_of TEST_VIDEOS exerciseType = Some videoUrl \<longrightarrow>
         w_alerts (useTestVideo exerciseType r rnd encoded wst) = w_alerts wst \<and>
         w_requests (useTestVideo exerciseType r rnd encoded wst)
           = w_requests wst @ [PostAnalyze videoUrl exerciseType 60000] \<and>
         pendingMock (useTestVideo exerciseType r rnd encoded wst)
           = pendingMock wst @ [mockResult rnd encoded exerciseType])) \<and>
   (\<not> serverAvailable r \<longrightarrow>
      (\<exists>a. w_alerts (checkServerHealth r wst) = w_alerts wst @ [a])) \<and>
   (analysisFails r \<longrightarrow>
      (\<exists>a. w_alerts (uploadVideo videoUri (Inr True) r reportRes wst) = w_alerts wst @ [a])) \<and>
   (outcome (apiRequest r) = Inr data \<and> getProp data ''success'' = Inr success \<and>
    truthy success \<and> getProp data ''report_url'' = Inr report_url \<and> truthy report_url \<and>
    \<not> reportLoaded reportRes \<longrightarrow>
      w_alerts (uploadVideo videoUri (Inr True) r reportRes wst) = w_alerts wst \<and>
      w_requests (uploadVideo videoUri (Inr True) r reportRes wst)
        = w_requests wst @
          [PostAnalyze videoUri (selectedExercise wst) 120000, GetReport report_url] \<and>
      reportHtml (uploadVideo videoUri (Inr True) r reportRes wst)
        = Some (case reportRes of
                  Rejects \<Rightarrow> LoadErrorHtml report_url NetworkError
                | Responds status htmlContent \<Rightarrow> LoadFailedHtml report_url status)) \<and>
   (fetchReports_promise pres pst = (fetchReports pres pst, None) \<and>
    (\<not> reportsAccepted pres \<longrightarrow>
       p_alerts (fetchReports pres pst) = p_alerts pst \<and>
       reports (fetchReports pres pst) = [] \<and>
       p_requests (fetchReports pres pst) = p_requests pst @ [GetAnalysisReports]))"
proof -
  have A: "sendMessage_promise tempId res now cst = (sendMessage_resume tempId res now cst, None) \<and>
    isError (last (chatHistory (sendMessage_resume tempId res now cst))) = (\<not> chatAccepted res) \<and>
    alerts (sendMessage_resume tempId res now cst) = alerts cst \<and>
    requests (sendMessage_resume tempId res now cst) = requests cst \<and>
    sendMessage_resume tempId (Responds status b) now cst
      = sendMessage_resume tempId (Responds status' b) now cst"
    using resume_status [of tempId status b now cst status']
    by (simp add: sendMessage_fulfils resume_last resume_effects)
  have B: "checkApiStatus_promise rendered res now cst = (checkApiStatus rendered res now cst, None) \<and>
    (\<not> healthAnswered res \<longrightarrow>
       isError (last (chatHistory (checkApiStatus rendered res now cst))) \<and>
       alerts (checkApiStatus rendered res now cst) = alerts cst @ [ConnectionFailed]) \<and>
    (healthAnswered res \<longrightarrow>
       filter isError (chatHistory (checkApiStatus rendered res now cst))
         = filter isError (chatHistory cst) \<and>
       alerts (checkApiStatus rendered res now cst) = alerts cst) \<and>
    requests (checkApiStatus rendered res now cst) = requests cst \<and>
    checkApiStatus rendered (Responds status b) now cst
      = checkApiStatus rendered (Responds status' b) now cst"
    using health_status [of rendered status b now cst status']
    by (simp add: checkApiStatus_fulfils health_fails health_answered health_requests)
  have C: "checkServerHealth_promise r wst = (checkServerHealth r wst, None) \<and>
    uploadVideo_promise videoUri fileInfo r reportRes wst
      = (uploadVideo videoUri fileInfo r reportRes wst, None) \<and>
    loadReport_promise data reportRes wst = (loadReport data reportRes wst, None) \<and>
    useTestVideo_promise exerciseType r rnd encoded wst
      = (useTestVideo exerciseType r rnd encoded wst, None)"
    by (simp add: checkServerHealth_fulfils uploadVideo_fulfils loadReport_fulfils
          useTestVideo_fulfils)
  have D: "apiFails r \<longrightarrow>
      (\<exists>e. outcome (apiRequest r) = Inl e \<and>
         w_alerts (checkServerHealth r wst) = w_alerts wst @ [ConnectionError] \<and>
         w_requests (checkServerHealth r wst) = w_requests wst @ [GetHealth] \<and>
         w_alerts (uploadVideo videoUri (Inr True) r reportRes wst)
           = w_alerts wst @ [UploadError e] \<and>
         w_requests (uploadVideo videoUri (Inr True) r reportRes wst)
           = w_requests wst @ [PostAnalyze videoUri (selectedExercise wst) 120000]) \<and>
      (map_of TEST_VIDEOS exerciseType = Some videoUrl \<longrightarrow>
         w_alerts (useTestVideo exerciseType r rnd encoded wst) = w_alerts wst \<and>
         w_requests (useTestVideo exerciseType r rnd encoded wst)
           = w_requests wst @ [PostAnalyze videoUrl exerciseType 60000] \<and>
         pendingMock (useTestVideo exerciseType r rnd encoded wst)
           = pendingMock wst @ [mockResult rnd encoded exerciseType])"
  proof
    assume "apiFails r"
    then obtain e where e: "outcome (apiRequest r) = Inl e" using apiFails_outcome by blast
    have "w_alerts (checkServerHealth r wst) = w_alerts wst @ [ConnectionError]"
         "w_requests (checkServerHealth r wst) = w_requests wst @ [GetHealth]"
      by (simp_all add: checkServerHealth_def e Let_def)
    moreover have "w_alerts (uploadVideo videoUri (Inr True) r reportRes wst)
           = w_alerts wst @ [UploadError e]"
         "w_requests (uploadVideo videoUri (Inr True) r reportRes wst)
           = w_requests wst @ [PostAnalyze videoUri (selectedExercise wst) 120000]"
      by (simp_all add: uploadVideo_def uploadVideo_try_def e Let_def)
    moreover have "map_of TEST_VIDEOS exerciseType = Some videoUrl \<longrightarrow>
         w_alerts (useTestVideo exerciseType r rnd encoded wst) = w_alerts wst \<and>
         w_requests (useTestVideo exerciseType r rnd encoded wst)
           = w_requests wst @ [PostAnalyze videoUrl exerciseType 60000] \<and>
         pendingMock (useTestVideo exerciseType r rnd encoded wst)
           = pendingMock wst @ [mockResult rnd encoded exerciseType]"
      by (simp add: useTestVideo_def simulateAnalysisResult_def e Let_def)
    ultimately show "(\<exists>e. outcome (apiRequest r) = Inl e \<and>
         w_alerts (checkServerHealth r wst) = w_alerts wst @ [ConnectionError] \<and>
         w_requests (checkServerHealth r wst) = w_requests wst @ [GetHealth] \<and>
         w_alerts (uploadVideo videoUri (Inr True) r reportRes wst)
           = w_alerts wst @ [UploadError e] \<and>
         w_requests (uploadVideo videoUri (Inr True) r reportRes wst)
           = w_requests wst @ [PostAnalyze videoUri (selectedExercise wst) 120000]) \<and>
      (map_of TEST_VIDEOS exerciseType = Some videoUrl \<longrightarrow>
         w_alerts (useTestVideo exerciseType r rnd encoded wst) = w_alerts wst \<and>
         w_requests (useTestVideo exerciseType r rnd encoded wst)
           = w_requests wst @ [PostAnalyze videoUrl exerciseType 60000] \<and>
         pendingMock (useTestVideo exerciseType r rnd encoded wst)
           = pendingMock wst @ [mockResult rnd encoded exerciseType])"
      using e by blast
  qed
  have G: "(\<not> serverAvailable r \<longrightarrow>
      (\<exists>a. w_alerts (checkServerHealth r wst) = w_alerts wst @ [a])) \<and>
   (analysisFails r \<longrightarrow>
      (\<exists>a. w_alerts (uploadVideo videoUri (Inr True) r reportRes wst) = w_alerts wst @ [a]))"
    using health_failure_alerts upload_failure_alerts by blast
  have E: "outcome (apiRequest r) = Inr data \<and> getProp data ''success'' = Inr success \<and>
    truthy success \<and> getProp data ''report_url'' = Inr report_url \<and> truthy report_url \<and>
    \<not> reportLoaded reportRes \<longrightarrow>
      w_alerts (uploadVideo videoUri (Inr True) r reportRes wst) = w_alerts wst \<and>
      w_requests (uploadVideo videoUri (Inr True) r reportRes wst)
        = w_requests wst @
          [PostAnalyze videoUri (selectedExercise wst) 120000, GetReport report_url] \<and>
      reportHtml (uploadVideo videoUri (Inr True) r reportRes wst)
        = Some (case reportRes of
                  Rejects \<Rightarrow> LoadErrorHtml report_url NetworkError
                | Responds status htmlContent \<Rightarrow> LoadFailedHtml report_url status)"
    using report_fetch_fails [of r data success report_url reportRes videoUri wst] by blast
  have "\<not> reportsAccepted pres \<longrightarrow>
          fetchReports_try pres = Inr [] \<or> (\<exists>e. fetchReports_try pres = Inl e)"
    using fetchReports_try_rejected by blast
  then have F: "fetchReports_promise pres pst = (fetchReports pres pst, None) \<and>
    (\<not> reportsAccepted pres \<longrightarrow>
       p_alerts (fetchReports pres pst) = p_alerts pst \<and>
       reports (fetchReports pres pst) = [] \<and>
       p_requests (fetchReports pres pst) = p_requests pst @ [GetAnalysisReports])"
    by (auto simp: fetchReports_fulfils fetchReports_def Let_def)
  from A B C D G E F show ?thesis by blast
qed

theorem network_failures_handled_witness:
  "\<not> chatAccepted Rejects \<and>
   isError (last (chatHistory (sendMessage_resume 3 Rejects [] (chat_init [])))) \<and>
   \<not> healthAnswered Rejects \<and>
   alerts (checkApiStatus (chat_init []) Rejects [] (chat_init [])) = [ConnectionFailed] \<and>
   healthAnswered (Responds 500 (Json (JObj [(''agent_status'', JStr (ascii ''available''))]))) \<and>
   alerts (checkApiStatus (chat_init [])
             (Responds 500 (Json (JObj [(''agent_status'', JStr (ascii ''available''))])))
             [] (chat_init [])) = [] \<and>
   apiFails TimerFirst \<and> analysisFails TimerFirst \<and> \<not> serverAvailable TimerFirst \<and>
   w_alerts (checkServerHealth TimerFirst workouts_init) = [ConnectionError] \<and>
   w_alerts (uploadVideo (ascii ''file:///v.mp4'') (Inr True) TimerFirst Rejects workouts_init)
     = [UploadError TimeoutError] \<and>
   map_of TEST_VIDEOS (ascii ''squat'')
     = Some (ascii ''https://storage.googleapis.com/gtv-videos-bucket/sample/ForBiggerBlazes.mp4'') \<and>
   w_alerts (useTestVideo (ascii ''squat'') TimerFirst (constantDraws sixTenths) [] workouts_init)
     = [] \<and>
   outcome (apiRequest (FetchFirst (Responds 200 (Json
       (JObj [(''success'', JBool True), (''report_url'', JStr (ascii ''http://h/r''))])))))
     = Inr (JObj [(''success'', JBool True), (''report_url'', JStr (ascii ''http://h/r''))]) \<and>
   truthy (Some (JBool True)) \<and> truthy (Some (JStr (ascii ''http://h/r''))) \<and>
   \<not> reportLoaded (Responds 404 (NotJson [])) \<and>
   w_alerts (uploadVideo (ascii ''file:///v.mp4'') (Inr True)
       (FetchFirst (Responds 200 (Json
          (JObj [(''success'', JBool True), (''report_url'', JStr (ascii ''http://h/r''))]))))
       (Responds 404 (NotJson [])) workouts_init) = [] \<and>
   reportHtml (uploadVideo (ascii ''file:///v.mp4'') (Inr True)
       (FetchFirst (Responds 200 (Json
          (JObj [(''success'', JBool True), (''report_url'', JStr (ascii ''http://h/r''))]))))
       (Responds 404 (NotJson [])) workouts_init)
     = Some (LoadFailedHtml (Some (JStr (ascii ''http://h/r''))) 404) \<and>
   \<not> reportsAccepted (Responds 500 (NotJson [])) \<and>
   p_alerts (fetchReports (Responds 500 (NotJson [])) profile_init) = [] \<and>
   reports (fetchReports (Responds 500 (NotJson [])) profile_init) = [] \<and>
   snd (fetchReports_promise (Responds 500 (NotJson [])) profile_init) = None"
proof -
  let ?h = "Responds 500 (Json (JObj [(''agent_status'', JStr (ascii ''available''))]))"
  let ?d = "JObj [(''success'', JBool True), (''report_url'', JStr (ascii ''http://h/r''))]"
  let ?r = "FetchFirst (Responds 200 (Json ?d))"
  let ?v = "ascii ''https://storage.googleapis.com/gtv-videos-bucket/sample/ForBiggerBlazes.mp4''"
  have a: "\<not> chatAccepted Rejects" "\<not> healthAnswered Rejects" "healthAnswered ?h"
    by simp_all
  have b: "apiFails TimerFirst" "analysisFails TimerFirst" "\<not> serverAvailable TimerFirst"
    by (simp_all add: analysisFails_def serverAvailable_def apiRequest_def apiRequest_try_def)
  have c: "\<not> reportsAccepted (Responds 500 (NotJson []))" by simp
  have d: "map_of TEST_VIDEOS (ascii ''squat'') = Some ?v"
    by (simp add: TEST_VIDEOS_def ascii_def)
  have o: "outcome (apiRequest TimerFirst) = Inl TimeoutError"
    by (simp add: apiRequest_def apiRequest_try_def)
  have o': "outcome (apiRequest ?r) = Inr ?d"
    by (simp add: apiRequest_def apiRequest_try_def ok_def)
  have g: "getProp ?d ''success'' = Inr (Some (JBool True))"
    "getProp ?d ''report_url'' = Inr (Some (JStr (ascii ''http://h/r'')))"
    by simp_all
  have t: "truthy (Some (JBool True))" "truthy (Some (JStr (ascii ''http://h/r'')))"
    by (simp_all add: ascii_def)
  have l: "\<not> reportLoaded (Responds 404 (NotJson []))" by (simp add: ok_def)
  note first = network_failures_handled
    [where tempId = 3 and res = Rejects and now = "[]" and cst = "chat_init []"
       and rendered = "chat_init []" and r = TimerFirst and wst = workouts_init
       and videoUri = "ascii ''file:///v.mp4''" and reportRes = Rejects
       and exerciseType = "ascii ''squat''" and videoUrl = ?v
       and rnd = "constantDraws sixTenths" and encoded = "[]"
       and pres = "Responds 500 (NotJson [])" and pst = profile_init]
  note second = network_failures_handled
    [where res = ?h and now = "[]" and cst = "chat_init []" and rendered = "chat_init []"
       and r = ?r and data = ?d and success = "Some (JBool True)"
       and report_url = "Some (JStr (ascii ''http://h/r''))"
       and wst = workouts_init and videoUri = "ascii ''file:///v.mp4''"
       and reportRes = "Responds 404 (NotJson [])"]
  from first a b c d o
  have 1: "isError (last (chatHistory (sendMessage_resume 3 Rejects [] (chat_init []))))"
    "alerts (checkApiStatus (chat_init []) Rejects [] (chat_init [])) = [ConnectionFailed]"
    "w_alerts (checkServerHealth TimerFirst workouts_init) = [ConnectionError]"
    "w_alerts (uploadVideo (ascii ''file:///v.mp4'') (Inr True) TimerFirst Rejects workouts_init)
       = [UploadError TimeoutError]"
    "w_alerts (useTestVideo (ascii ''squat'') TimerFirst (constantDraws sixTenths) [] workouts_init)
       = []"
    "p_alerts (fetchReports (Responds 500 (NotJson [])) profile_init) = []"
    "reports (fetchReports (Responds 500 (NotJson [])) profile_init) = []"
    "snd (fetchReports_promise (Responds 500 (NotJson [])) profile_init) = None"
    by (simp_all add: chat_init_def workouts_init_def profile_init_def)
  from second a o' g t l
  have 2: "alerts (checkApiStatus (chat_init []) ?h [] (chat_init [])) = []"
    "w_alerts (uploadVideo (ascii ''file:///v.mp4'') (Inr True) ?r
       (Responds 404 (NotJson [])) workouts_init) = []"
    "reportHtml (uploadVideo (ascii ''file:///v.mp4'') (Inr True) ?r
       (Responds 404 (NotJson [])) workouts_init)
     = Some (LoadFailedHtml (Some (JStr (ascii ''http://h/r''))) 404)"
    by (simp_all add: chat_init_def workouts_init_def)
  from a b c d o' t l 1 2 show ?thesis by blast
qed

text \<open>
  C3 as stated fails: not every failure ends in an alert or an error-flagged chat
  message. A network failure in \<open>fetchReports\<close> empties the list and shows nothing (the
  ProfileScreen has no chat history); a timeout in \<open>useTestVideo\<close> shows no alert; a
  response with status 500 to \<open>sendMessage\<close> whose body has a truthy \<open>success\<close> is stored
  as an ordinary reply, and one to \<open>checkApiStatus\<close> that names an available agent
  changes nothing; and a network failure of the report fetch of \<open>uploadVideo\<close> puts an
  error page into the report HTML, without an alert.
\<close>

theorem failures_without_alert_or_message:
  "\<not> reportsAccepted Rejects \<and>
   p_alerts (fetchReports Rejects profile_init) = [] \<and>
   reports (fetchReports Rejects profile_init) = [] \<and>
   loading (fetchReports Rejects profile_init) = False \<and>
   apiFails TimerFirst \<and>
   w_alerts (useTestVideo (ascii ''squat'') TimerFirst (constantDraws sixTenths) [] workouts_init)
     = [] \<and>
   \<not> ok 500 \<and>
   \<not> isError (last (chatHistory
       (sendMessage [] [] []
          (Responds 500 (Json (JObj [(''success'', JBool True), (''message'', JStr (ascii ''ok''))])))
          ((chat_init [])\<lparr>message := ascii ''hi''\<rparr>)))) \<and>
   alerts (sendMessage [] [] []
          (Responds 500 (Json (JObj [(''success'', JBool True), (''message'', JStr (ascii ''ok''))])))
          ((chat_init [])\<lparr>message := ascii ''hi''\<rparr>)) = [] \<and>
   checkApiStatus (chat_init [])
       (Responds 500 (Json (JObj [(''agent_status'', JStr (ascii ''available''))])))
       [] (chat_init [])
     = (chat_init [])\<lparr>pendingHealth := False\<rparr> \<and>
   w_alerts (uploadVideo (ascii ''file:///v.mp4'') (Inr True)
       (FetchFirst (Responds 200 (Json
          (JObj [(''success'', JBool True), (''report_url'', JStr (ascii ''http://h/r''))]))))
       Rejects workouts_init) = [] \<and>
   reportHtml (uploadVideo (ascii ''file:///v.mp4'') (Inr True)
       (FetchFirst (Responds 200 (Json
          (JObj [(''success'', JBool True), (''report_url'', JStr (ascii ''http://h/r''))]))))
       Rejects workouts_init)
     = Some (LoadErrorHtml (Some (JStr (ascii ''http://h/r''))) NetworkError)"
  by (simp add: fetchReports_def fetchReports_try_def profile_init_def Let_def
        useTestVideo_def simulateAnalysisResult_def TEST_VIDEOS_def apiRequest_def
        apiRequest_try_def workouts_init_def ok_def ascii_def
        sendMessage_def sendMessage_start_def sendMessage_resume_def sendMessage_try_def
        removeLoading_def chat_init_def trim_def isSpace_def isWhiteSpace_def
        isLineTerminator_def uploadVideo_def uploadVideo_try_def loadReport_def
        checkApiStatus_def checkApiStatus_try_def)

end
